theory Spec2Isabelle
  imports Complex_Main "HOL-Library.Char_ord"
begin

section \<open>The result model\<close>

text \<open>
  \<^verbatim>\<open>python_benchmarks/benchmarks.py\<close>, class \<open>BenchmarkResult\<close>: an operation
  identifier, two Python integers and an optional row count. The entries of the
  \<open>"results"\<close> list of a persisted document carry the same four keys, so a loaded
  entry is the same record and \<open>r["duration_ms"]\<close> is the field selection
  \<open>duration_ms r\<close>; \<open>r.get("rows_processed")\<close> is the optional field.
\<close>

record benchmark_result =
  operation :: string
  duration_ms :: int
  memory_mb :: int
  rows_processed :: "int option"

record system_information =
  os :: string
  cpu_count :: "int option"
  total_memory_gb :: int

record dataset_information =
  source :: string
  rows_limit :: "int option"

text \<open>
  The document \<open>save_results\<close> writes, as the scripts read it back: a mapping with
  the keys \<open>timestamp\<close>, \<open>results\<close>, \<open>system_info\<close> and \<open>dataset_info\<close>.
\<close>

record result_set =
  timestamp :: string
  results :: "benchmark_result list"
  system_info :: system_information
  dataset_info :: dataset_information

text \<open>
  The exceptions of the Python code that the model keeps as values. \<open>EngineError\<close>
  stands for the exceptions of the dataframe engine that derive from \<open>Exception\<close>.
  \<open>PanicException\<close>, which the engine raises on an internal panic, and
  \<open>KeyboardInterrupt\<close> derive from \<open>BaseException\<close> only.
\<close>

datatype py_error =
    ZeroDivisionError
  | AttributeError
  | KeyError
  | TypeError
  | FileNotFoundError
  | JSONDecodeError
  | EngineError string
  | PanicException string
  | KeyboardInterrupt

text \<open>\<open>isinstance(e, Exception)\<close>: what a clause \<open>except Exception\<close> catches.\<close>

fun is_Exception :: "py_error \<Rightarrow> bool" where
  "is_Exception (PanicException message) = False"
| "is_Exception KeyboardInterrupt = False"
| "is_Exception e = True"

section \<open>Arithmetic of the Python expressions\<close>

text \<open>
  \<open>a / b\<close> on two Python integers raises on a zero divisor and otherwise gives the
  quotient. The quotient is kept as an exact rational: the rounding of the true
  quotient to the nearest double is not part of the model.
\<close>

definition truediv :: "int \<Rightarrow> int \<Rightarrow> py_error + rat" where
  "truediv a b = (if b = 0 then Inl ZeroDivisionError else Inr (of_int a / of_int b))"

section \<open>\<^verbatim>\<open>python_benchmarks/benchmarks.py\<close>: measuring one operation\<close>

text \<open>
  What one benchmark method reads from its surroundings, in the order it reads it:
  the resident set size in bytes before the work, the clock before and after the
  work, and the resident set size after it. \<open>time.perf_counter\<close> returns seconds as
  a float; the model keeps the readings as rationals and does not round.
\<close>

record probe =
  initial_rss :: int
  start_time :: rat
  end_time :: rat
  final_rss :: int

text \<open>\<^verbatim>\<open>self.process.memory_info().rss // 1024 // 1024\<close>\<close>

definition measure_memory :: "int \<Rightarrow> int" where
  "measure_memory rss = rss div 1024 div 1024"

text \<open>\<open>int(x)\<close> on a float drops the fractional part, towards zero.\<close>

definition py_int :: "rat \<Rightarrow> int" where
  "py_int x = (if 0 \<le> x then \<lfloor>x\<rfloor> else \<lceil>x\<rceil>)"

text \<open>
  The lines every benchmark method ends with:
  \<^verbatim>\<open>
  duration_ms = int((end_time - start_time) * 1000)
  memory_used = max(0, final_memory - initial_memory)
  BenchmarkResult(operation=..., duration_ms=duration_ms,
                  memory_mb=memory_used, rows_processed=....height)\<close>
\<close>

definition measured :: "probe \<Rightarrow> string \<Rightarrow> int \<Rightarrow> benchmark_result" where
  "measured p name rows =
     (let initial_memory = measure_memory (initial_rss p);
          final_memory = measure_memory (final_rss p);
          elapsed = py_int ((end_time p - start_time p) * 1000);
          memory_used = max 0 (final_memory - initial_memory)
      in \<lparr>operation = name,
          duration_ms = elapsed,
          memory_mb = memory_used,
          rows_processed = Some rows\<rparr>)"

text \<open>
  The dataframe engine is outside the repository. Each call the methods make into
  it is a function that either raises or returns a frame; \<open>height\<close> reads the row
  count of a frame.
\<close>

record 'df engine =
  read_parquet :: "string \<Rightarrow> (string \<times> bool) list option \<Rightarrow> int option \<Rightarrow> py_error + 'df"
  filter_x :: "'df \<Rightarrow> py_error + 'df"
  select_aggregates :: "'df \<Rightarrow> py_error + 'df"
  group_by_name :: "'df \<Rightarrow> py_error + 'df"
  sort_x :: "'df \<Rightarrow> py_error + 'df"
  complex_pipeline :: "'df \<Rightarrow> py_error + 'df"
  height :: "'df \<Rightarrow> int"

text \<open>
  The attributes of a \<open>PythonPolarsBenchmark\<close>. \<open>suite_results\<close> is \<open>self.results\<close>.
  \<open>df\<close> is \<open>None\<close> while the attribute \<open>self.df\<close> has not been assigned: reading it
  then raises \<open>AttributeError\<close>.
\<close>

record 'df suite =
  data_path :: string
  limit_rows :: "int option"
  suite_results :: "benchmark_result list"
  storage_options :: "(string \<times> bool) list option"
  df :: "'df option"

definition startswith :: "string \<Rightarrow> string \<Rightarrow> bool" where
  "startswith s prefix = (take (length prefix) s = prefix)"

text \<open>\<open>__init__\<close>: no assignment to \<open>self.df\<close>.\<close>

definition init :: "string \<Rightarrow> int option \<Rightarrow> 'df suite" where
  "init path limit =
     \<lparr>data_path = path,
      limit_rows = limit,
      suite_results = [],
      storage_options =
        (if startswith path ''s3://'' then Some [(''anon'', True), (''use_ssl'', True)] else None),
      df = None\<rparr>"

text \<open>
  A benchmark method either raises or returns its result together with the suite
  as it leaves it. Only \<open>benchmark_read\<close> assigns an attribute, and only after the
  result has been built.
\<close>

type_synonym 'df bound_method = "'df suite \<Rightarrow> py_error + benchmark_result \<times> 'df suite"

text \<open>
  \<open>benchmark_read\<close>: \<open>if self.storage_options:\<close> holds for a non-empty mapping; the
  read then passes the options, otherwise it passes none.
\<close>

definition benchmark_read :: "'df engine \<Rightarrow> probe \<Rightarrow> 'df bound_method" where
  "benchmark_read eng p self =
     (case (if (case storage_options self of None \<Rightarrow> False | Some items \<Rightarrow> items \<noteq> [])
            then read_parquet eng (data_path self) (storage_options self) (limit_rows self)
            else read_parquet eng (data_path self) None (limit_rows self)) of
        Inl e \<Rightarrow> Inl e
      | Inr frame \<Rightarrow>
          Inr (measured p ''read_parquet'' (height eng frame), self\<lparr>df := Some frame\<rparr>))"

text \<open>
  The five methods after the read have one shape and differ in the engine call
  and in the operation identifier: they read \<open>self.df\<close>, which raises
  \<open>AttributeError\<close> while the attribute is unassigned, call the engine on the
  frame and build the result from the frame the engine returns.
\<close>

definition on_frame ::
  "('df \<Rightarrow> py_error + 'df) \<Rightarrow> 'df engine \<Rightarrow> probe \<Rightarrow> string \<Rightarrow> 'df bound_method" where
  "on_frame work eng p name self =
     (case df self of
        None \<Rightarrow> Inl AttributeError
      | Some frame \<Rightarrow>
          (case work frame of
             Inl e \<Rightarrow> Inl e
           | Inr produced \<Rightarrow> Inr (measured p name (height eng produced), self)))"

definition benchmark_filter :: "'df engine \<Rightarrow> probe \<Rightarrow> 'df bound_method" where
  "benchmark_filter eng p = on_frame (filter_x eng) eng p ''filter''"

definition benchmark_aggregation :: "'df engine \<Rightarrow> probe \<Rightarrow> 'df bound_method" where
  "benchmark_aggregation eng p = on_frame (select_aggregates eng) eng p ''aggregation''"

definition benchmark_group_by :: "'df engine \<Rightarrow> probe \<Rightarrow> 'df bound_method" where
  "benchmark_group_by eng p = on_frame (group_by_name eng) eng p ''group_by''"

definition benchmark_sort :: "'df engine \<Rightarrow> probe \<Rightarrow> 'df bound_method" where
  "benchmark_sort eng p = on_frame (sort_x eng) eng p ''sort''"

definition benchmark_complex_query :: "'df engine \<Rightarrow> probe \<Rightarrow> 'df bound_method" where
  "benchmark_complex_query eng p = on_frame (complex_pipeline eng) eng p ''complex_query''"

section \<open>\<^verbatim>\<open>run_all_benchmarks\<close>\<close>

text \<open>The lines the suite prints.\<close>

datatype progress =
    Starting
  | Data_source string
  | Row_limit int
  | Completed string int int
  | Error_in string py_error
  | Results_saved string
  | Results_summary
  | Summary_entry string int

text \<open>
  The list \<open>benchmarks\<close> of bound methods, each with its \<open>__name__\<close>; the \<open>i\<close>-th
  method reads the \<open>i\<close>-th probe.
\<close>

definition benchmarks :: "'df engine \<Rightarrow> (nat \<Rightarrow> probe) \<Rightarrow> (string \<times> 'df bound_method) list" where
  "benchmarks eng probes =
     [(''benchmark_read'', benchmark_read eng (probes 0)),
      (''benchmark_filter'', benchmark_filter eng (probes 1)),
      (''benchmark_aggregation'', benchmark_aggregation eng (probes 2)),
      (''benchmark_group_by'', benchmark_group_by eng (probes 3)),
      (''benchmark_sort'', benchmark_sort eng (probes 4)),
      (''benchmark_complex_query'', benchmark_complex_query eng (probes 5))]"

text \<open>
  The \<open>for\<close> loop with its \<open>try\<close>/\<open>except Exception\<close>: a result is appended and
  reported; an exception that is an \<open>Exception\<close> is reported and the loop goes on;
  any other exception leaves the loop and the function, which then returns
  nothing.
\<close>

fun run_each ::
  "(string \<times> 'df bound_method) list \<Rightarrow> 'df suite \<Rightarrow> benchmark_result list \<Rightarrow> progress list
     \<Rightarrow> py_error + benchmark_result list \<times> 'df suite \<times> progress list" where
  "run_each [] self collected printed = Inr (collected, self, printed)"
| "run_each ((name, benchmark) # rest) self collected printed =
     (case benchmark self of
        Inr (result, self') \<Rightarrow>
          run_each rest self' (collected @ [result])
            (printed @ [Completed (operation result) (duration_ms result) (memory_mb result)])
      | Inl e \<Rightarrow>
          if is_Exception e
          then run_each rest self collected (printed @ [Error_in name e])
          else Inl e)"

text \<open>The lines printed before the loop; \<open>if self.limit_rows:\<close> is false for \<open>None\<close> and for \<open>0\<close>.\<close>

definition announced :: "'df suite \<Rightarrow> progress list" where
  "announced self =
     [Starting, Data_source (data_path self)] @
     (case limit_rows self of
        None \<Rightarrow> []
      | Some n \<Rightarrow> if n = 0 then [] else [Row_limit n])"

definition run_all_benchmarks ::
  "'df engine \<Rightarrow> (nat \<Rightarrow> probe) \<Rightarrow> 'df suite
     \<Rightarrow> py_error + benchmark_result list \<times> 'df suite \<times> progress list" where
  "run_all_benchmarks eng probes self =
     (case run_each (benchmarks eng probes) self [] (announced self) of
        Inl e \<Rightarrow> Inl e
      | Inr (collected, self', printed) \<Rightarrow>
          Inr (collected, self'\<lparr>suite_results := collected\<rparr>, printed))"

section \<open>Persistence\<close>

text \<open>
  The values \<open>json.dump\<close> is given and \<open>json.load\<close> returns: \<open>None\<close>, truth
  values, integers, strings, lists and mappings with string keys, a mapping being
  the list of its items in insertion order. Floats do not occur in the documents
  of the suite and are left out. A character of a string is a code point below
  256.
\<close>

datatype json =
    JNull
  | JBool bool
  | JInt int
  | JStr string
  | JList "json list"
  | JDict "(string \<times> json) list"

definition optional_int :: "int option \<Rightarrow> json" where
  "optional_int v = (case v of None \<Rightarrow> JNull | Some n \<Rightarrow> JInt n)"

text \<open>\<open>d[key]\<close> on a loaded value.\<close>

definition item :: "json \<Rightarrow> string \<Rightarrow> py_error + json" where
  "item d key =
     (case d of
        JDict items \<Rightarrow> (case map_of items key of None \<Rightarrow> Inl KeyError | Some v \<Rightarrow> Inr v)
      | _ \<Rightarrow> Inl TypeError)"

text \<open>\<open>BenchmarkResult.to_dict\<close>\<close>

definition to_dict :: "benchmark_result \<Rightarrow> json" where
  "to_dict r =
     JDict [(''operation'', JStr (operation r)),
            (''duration_ms'', JInt (duration_ms r)),
            (''memory_mb'', JInt (memory_mb r)),
            (''rows_processed'', optional_int (rows_processed r))]"

text \<open>What \<open>save_results\<close> asks of the machine and the clock.\<close>

record host =
  platform_system :: string
  psutil_cpu_count :: "int option"
  virtual_memory_total :: int
  utcnow_isoformat :: string

definition benchmark_suite :: "host \<Rightarrow> 'df suite \<Rightarrow> json" where
  "benchmark_suite h self =
     JDict [(''timestamp'', JStr (utcnow_isoformat h @ ''Z'')),
            (''results'', JList (map to_dict (suite_results self))),
            (''system_info'',
               JDict [(''os'', JStr (platform_system h)),
                      (''cpu_count'', optional_int (psutil_cpu_count h)),
                      (''total_memory_gb'',
                         JInt (virtual_memory_total h div 1024 div 1024 div 1024))]),
            (''dataset_info'',
               JDict [(''source'', JStr (data_path self)),
                      (''rows_limit'', optional_int (limit_rows self))])]"

subsection \<open>The text of a document\<close>

text \<open>
  Modelled from the spec: the structured text representation of section 4.3
  and section 6. The write path calls \<open>json.dump(benchmark_suite, f, indent=2)\<close>
  and the read path \<open>json.load(f)\<close>; both belong to the standard library and are
  not among the repository's files. The definitions of this subsection follow
  the behaviour the library documents for them: the encoder with \<open>indent=2\<close>, the
  default separators \<open>,\<close> and \<open>: \<close> and \<open>ensure_ascii\<close>, and the decoder in its
  default strict mode.
\<close>

text \<open>Modelled from the spec: \<open>ord(c)\<close>.\<close>

definition code_point :: "char \<Rightarrow> nat" where
  "code_point c = of_char c"

text \<open>Modelled from the spec: the decimal digits of a natural number, as \<open>repr\<close> writes them.\<close>

fun digits :: "nat \<Rightarrow> string" where
  "digits n = (if n < 10 then [char_of (48 + n)] else digits (n div 10) @ [char_of (48 + n mod 10)])"

declare digits.simps [simp del]

text \<open>Modelled from the spec: \<open>int.__repr__\<close>, which \<open>json.dump\<close> uses for integers.\<close>

definition repr_int :: "int \<Rightarrow> string" where
  "repr_int i = (if i < 0 then CHR ''-'' # digits (nat (- i)) else digits (nat i))"

text \<open>Modelled from the spec: one lower-case hexadecimal digit of \<open>'\\u{0:04x}'\<close>.\<close>

definition hex_digit :: "nat \<Rightarrow> char" where
  "hex_digit d = (if d < 10 then char_of (48 + d) else char_of (87 + d))"

text \<open>
  Modelled from the spec: what \<open>json.dump\<close> writes for one character of a string.
  The quotation mark, the backslash and the five control characters with a short
  form get that form; every other character outside the range from the space to
  the tilde is written as \<open>\u00XX\<close>.
\<close>

definition escape :: "char \<Rightarrow> string" where
  "escape c =
     (if c = CHR 0x22 then [CHR 0x5C, CHR 0x22]
      else if c = CHR 0x5C then [CHR 0x5C, CHR 0x5C]
      else if c = CHR 0x0A then [CHR 0x5C, CHR ''n'']
      else if c = CHR 0x0D then [CHR 0x5C, CHR ''r'']
      else if c = CHR 0x09 then [CHR 0x5C, CHR ''t'']
      else if c = CHR 0x08 then [CHR 0x5C, CHR ''b'']
      else if c = CHR 0x0C then [CHR 0x5C, CHR ''f'']
      else if code_point c < 32 \<or> 126 < code_point c then
        [CHR 0x5C, CHR ''u'', CHR ''0'', CHR ''0'',
         hex_digit (code_point c div 16), hex_digit (code_point c mod 16)]
      else [c])"

text \<open>Modelled from the spec: a string between quotation marks (\<open>py_encode_basestring_ascii\<close>).\<close>

definition encode_string :: "string \<Rightarrow> string" where
  "encode_string s = CHR 0x22 # concat (map escape s) @ [CHR 0x22]"

text \<open>Modelled from the spec: a line break followed by two spaces for each level of nesting.\<close>

definition newline_indent :: "nat \<Rightarrow> string" where
  "newline_indent level = CHR 0x0A # replicate (2 * level) (CHR '' '')"

text \<open>Modelled from the spec: \<open>separator.join(items)\<close>.\<close>

fun join :: "string \<Rightarrow> string list \<Rightarrow> string" where
  "join separator [] = []"
| "join separator [x] = x"
| "join separator (x # y # ys) = x @ separator @ join separator (y # ys)"

text \<open>
  Modelled from the spec: the encoder of \<open>json.dump\<close> at a level of nesting. An
  empty list is \<open>[]\<close> and an empty mapping \<open>{}\<close>; otherwise every item stands on a
  line of its own, one level deeper, and the closing bracket on a line at the
  level of the opening one.
\<close>

fun encode :: "nat \<Rightarrow> json \<Rightarrow> string" where
  "encode level JNull = ''null''"
| "encode level (JBool b) = (if b then ''true'' else ''false'')"
| "encode level (JInt i) = repr_int i"
| "encode level (JStr s) = encode_string s"
| "encode level (JList values) =
     (if values = [] then ''[]''
      else ''['' @ newline_indent (Suc level) @
           join ('','' @ newline_indent (Suc level)) (map (encode (Suc level)) values) @
           newline_indent level @ '']'')"
| "encode level (JDict members) =
     (if members = [] then ''{}''
      else ''{'' @ newline_indent (Suc level) @
           join ('','' @ newline_indent (Suc level))
             (map (\<lambda>member. encode_string (fst member) @ '': '' @ encode (Suc level) (snd member))
                members) @
           newline_indent level @ ''}'')"

text \<open>Modelled from the spec: the text \<open>json.dump(v, f, indent=2)\<close> writes to the file.\<close>

definition json_dumps :: "json \<Rightarrow> string" where
  "json_dumps v = encode 0 v"

text \<open>Modelled from the spec: the white space the decoder of \<open>json.load\<close> skips.\<close>

definition is_whitespace :: "char \<Rightarrow> bool" where
  "is_whitespace c = (c = CHR '' '' \<or> c = CHR 0x09 \<or> c = CHR 0x0A \<or> c = CHR 0x0D)"

text \<open>Modelled from the spec: the decoder skipping white space.\<close>

definition skip_whitespace :: "string \<Rightarrow> string" where
  "skip_whitespace s = dropWhile is_whitespace s"

text \<open>Modelled from the spec: the value of one hexadecimal digit, in either case.\<close>

definition hex_value :: "char \<Rightarrow> nat option" where
  "hex_value c =
     (let n = code_point c in
      if 48 \<le> n \<and> n \<le> 57 then Some (n - 48)
      else if 97 \<le> n \<and> n \<le> 102 then Some (n - 87)
      else if 65 \<le> n \<and> n \<le> 70 then Some (n - 55)
      else None)"

text \<open>Modelled from the spec: the code point of the four hexadecimal digits after \<open>\u\<close>.\<close>

definition decode_uXXXX :: "string \<Rightarrow> nat option" where
  "decode_uXXXX s =
     (case map hex_value s of
        [Some a, Some b, Some c, Some d] \<Rightarrow> Some (((a * 16 + b) * 16 + c) * 16 + d)
      | _ \<Rightarrow> None)"

text \<open>Modelled from the spec: the character a short escape stands for.\<close>

definition backslash :: "char \<Rightarrow> char option" where
  "backslash e =
     (if e = CHR 0x22 then Some (CHR 0x22)
      else if e = CHR 0x5C then Some (CHR 0x5C)
      else if e = CHR ''/'' then Some (CHR ''/'')
      else if e = CHR ''b'' then Some (CHR 0x08)
      else if e = CHR ''f'' then Some (CHR 0x0C)
      else if e = CHR ''n'' then Some (CHR 0x0A)
      else if e = CHR ''r'' then Some (CHR 0x0D)
      else if e = CHR ''t'' then Some (CHR 0x09)
      else None)"

text \<open>
  Modelled from the spec: the decoder reading a string after its opening
  quotation mark, up to the closing one. A control character inside the string, an
  unknown escape and a code point above 255 are errors.
\<close>

fun scanstring :: "string \<Rightarrow> (string \<times> string) option" where
  "scanstring [] = None"
| "scanstring (c # cs) =
     (if c = CHR 0x22 then Some ([], cs)
      else if c = CHR 0x5C then
        (case cs of
           [] \<Rightarrow> None
         | e # rest \<Rightarrow>
             if e = CHR ''u'' then
               (case decode_uXXXX (take 4 rest) of
                  None \<Rightarrow> None
                | Some n \<Rightarrow>
                    if 255 < n then None
                    else (case scanstring (drop 4 rest) of
                            None \<Rightarrow> None
                          | Some (decoded, after) \<Rightarrow> Some (char_of n # decoded, after)))
             else
               (case backslash e of
                  None \<Rightarrow> None
                | Some d \<Rightarrow>
                    (case scanstring rest of
                       None \<Rightarrow> None
                     | Some (decoded, after) \<Rightarrow> Some (d # decoded, after))))
      else if code_point c < 32 then None
      else (case scanstring cs of
              None \<Rightarrow> None
            | Some (decoded, after) \<Rightarrow> Some (c # decoded, after)))"

text \<open>Modelled from the spec: a decimal digit.\<close>

definition is_digit :: "char \<Rightarrow> bool" where
  "is_digit c = (48 \<le> code_point c \<and> code_point c \<le> 57)"

text \<open>Modelled from the spec: the natural number a string of digits denotes.\<close>

definition number_of :: "string \<Rightarrow> nat" where
  "number_of ds = foldl (\<lambda>n c. 10 * n + (code_point c - 48)) 0 ds"

text \<open>
  Modelled from the spec: the integer part of a number, \<open>-?(0|[1-9][0-9]*)\<close>: a
  leading zero is a number of its own.
\<close>

definition scan_integer :: "string \<Rightarrow> (int \<times> string) option" where
  "scan_integer s =
     (let negative = (s \<noteq> [] \<and> hd s = CHR ''-'');
          unsigned = (if negative then tl s else s)
      in case unsigned of
           [] \<Rightarrow> None
         | c # cs \<Rightarrow>
             if c = CHR ''0'' then Some (0, cs)
             else if is_digit c then
               Some ((if negative then - int (number_of (takeWhile is_digit unsigned))
                      else int (number_of (takeWhile is_digit unsigned))),
                     dropWhile is_digit unsigned)
             else None)"

text \<open>
  Modelled from the spec: a number. One that goes on with a fraction or an
  exponent is a float and is refused here.
\<close>

definition scan_number :: "string \<Rightarrow> (json \<times> string) option" where
  "scan_number s =
     (case scan_integer s of
        None \<Rightarrow> None
      | Some (i, rest) \<Rightarrow>
          (case rest of
             [] \<Rightarrow> Some (JInt i, rest)
           | c # cs \<Rightarrow>
               if c = CHR ''.'' \<or> c = CHR ''e'' \<or> c = CHR ''E'' then None
               else Some (JInt i, rest)))"

text \<open>Modelled from the spec: \<open>d[key] = v\<close>, which keeps the place of a key already present.\<close>

fun upsert :: "(string \<times> json) list \<Rightarrow> string \<Rightarrow> json \<Rightarrow> (string \<times> json) list" where
  "upsert [] key v = [(key, v)]"
| "upsert ((k, old) # members) key v =
     (if k = key then (k, v) # members else (k, old) # upsert members key v)"

text \<open>Modelled from the spec: \<open>dict(pairs)\<close>, the mapping the decoder builds from the members it read.\<close>

definition dict_of :: "(string \<times> json) list \<Rightarrow> (string \<times> json) list" where
  "dict_of pairs = fold (\<lambda>pair d. upsert d (fst pair) (snd pair)) pairs []"

text \<open>
  Modelled from the spec: the decoder of \<open>json.load\<close> for a value, for the
  elements of a list after its opening bracket and for the members of a mapping
  after its opening brace. The first argument bounds the depth of the calls; the
  decoder is started with the length of the text, and every call consumes a
  character.
\<close>

fun parse_value :: "nat \<Rightarrow> string \<Rightarrow> (json \<times> string) option"
  and parse_elements :: "nat \<Rightarrow> string \<Rightarrow> (json list \<times> string) option"
  and parse_members :: "nat \<Rightarrow> string \<Rightarrow> ((string \<times> json) list \<times> string) option" where
  "parse_value 0 s = None"
| "parse_value (Suc fuel) s =
     (case s of
        [] \<Rightarrow> None
      | c # cs \<Rightarrow>
          if c = CHR 0x22 then
            (case scanstring cs of
               None \<Rightarrow> None
             | Some (decoded, after) \<Rightarrow> Some (JStr decoded, after))
          else if c = CHR ''{'' then
            (case skip_whitespace cs of
               [] \<Rightarrow> None
             | d # ds \<Rightarrow>
                 if d = CHR ''}'' then Some (JDict [], ds)
                 else (case parse_members fuel (d # ds) of
                         None \<Rightarrow> None
                       | Some (pairs, after) \<Rightarrow> Some (JDict (dict_of pairs), after)))
          else if c = CHR ''['' then
            (case skip_whitespace cs of
               [] \<Rightarrow> None
             | d # ds \<Rightarrow>
                 if d = CHR '']'' then Some (JList [], ds)
                 else (case parse_elements fuel (d # ds) of
                         None \<Rightarrow> None
                       | Some (values, after) \<Rightarrow> Some (JList values, after)))
          else if take 4 s = ''null'' then Some (JNull, drop 4 s)
          else if take 4 s = ''true'' then Some (JBool True, drop 4 s)
          else if take 5 s = ''false'' then Some (JBool False, drop 5 s)
          else scan_number s)"
| "parse_elements 0 s = None"
| "parse_elements (Suc fuel) s =
     (case parse_value fuel s of
        None \<Rightarrow> None
      | Some (v, after) \<Rightarrow>
          (case skip_whitespace after of
             [] \<Rightarrow> None
           | c # cs \<Rightarrow>
               if c = CHR '']'' then Some ([v], cs)
               else if c = CHR '','' then
                 (case parse_elements fuel (skip_whitespace cs) of
                    None \<Rightarrow> None
                  | Some (values, rest) \<Rightarrow> Some (v # values, rest))
               else None))"
| "parse_members 0 s = None"
| "parse_members (Suc fuel) s =
     (case s of
        [] \<Rightarrow> None
      | quote # cs \<Rightarrow>
          if quote \<noteq> CHR 0x22 then None
          else
            (case scanstring cs of
               None \<Rightarrow> None
             | Some (key, after_key) \<Rightarrow>
                 (case skip_whitespace after_key of
                    [] \<Rightarrow> None
                  | colon # after_colon \<Rightarrow>
                      if colon \<noteq> CHR '':'' then None
                      else
                        (case parse_value fuel (skip_whitespace after_colon) of
                           None \<Rightarrow> None
                         | Some (v, after) \<Rightarrow>
                             (case skip_whitespace after of
                                [] \<Rightarrow> None
                              | c # cs' \<Rightarrow>
                                  if c = CHR ''}'' then Some ([(key, v)], cs')
                                  else if c = CHR '','' then
                                    (case parse_members fuel (skip_whitespace cs') of
                                       None \<Rightarrow> None
                                     | Some (pairs, rest) \<Rightarrow> Some ((key, v) # pairs, rest))
                                  else None)))))"

text \<open>
  Modelled from the spec: \<open>json.load\<close> on the text of a file: white space, one
  value, white space, and nothing else.
\<close>

definition json_loads :: "string \<Rightarrow> py_error + json" where
  "json_loads s =
     (case parse_value (length s) (skip_whitespace s) of
        None \<Rightarrow> Inl JSONDecodeError
      | Some (v, after) \<Rightarrow>
          if skip_whitespace after = [] then Inr v else Inl JSONDecodeError)"

subsection \<open>Files\<close>

text \<open>
  A path either has no file or holds a content. \<open>save_results\<close> writes the text
  of the document; the type of contents is otherwise left open, and the scripts
  take the function that reads a content as an argument.
\<close>

type_synonym 'c files = "string \<rightharpoonup> 'c"

definition save_results ::
  "host \<Rightarrow> 'df suite \<Rightarrow> string \<Rightarrow> string files \<Rightarrow> string files \<times> progress list" where
  "save_results h self output_path fs =
     (fs(output_path \<mapsto> json_dumps (benchmark_suite h self)),
      [Results_saved output_path, Results_summary] @
      map (\<lambda>result. Summary_entry (operation result) (duration_ms result)) (suite_results self))"

text \<open>
  \<open>load_results\<close> of both scripts: \<open>open\<close> raises on a missing file, \<open>json.load\<close>
  parses the content.
\<close>

definition load_results :: "('c \<Rightarrow> py_error + 'd) \<Rightarrow> 'c files \<Rightarrow> string \<Rightarrow> py_error + 'd" where
  "load_results json_load fs results_path =
     (case fs results_path of None \<Rightarrow> Inl FileNotFoundError | Some content \<Rightarrow> json_load content)"

section \<open>Alignment of two result sets\<close>

text \<open>
  \<^verbatim>\<open>rust_lookup = {result["operation"]: result for result in rust_data["results"]}\<close>.
  A dict comprehension inserts in list order, so a later entry with the same key
  replaces an earlier one.
\<close>

definition rust_lookup :: "result_set \<Rightarrow> (string \<rightharpoonup> benchmark_result)" where
  "rust_lookup rust_data =
     fold (\<lambda>result lookup. lookup(operation result \<mapsto> result)) (results rust_data) Map.empty"

subsection \<open>\<^verbatim>\<open>scripts/compare_results.py\<close>\<close>

text \<open>
  The speedup column holds either the text \<open>"N/A"\<close> or the quotient rendered with
  the format \<open>.2f\<close> and a trailing \<open>x\<close>. The cell keeps the quotient itself; the
  decimal rendering is left to the console library. Likewise the four numeric
  columns hold the integers that \<open>str\<close> renders.
\<close>

datatype speedup_cell = Times rat | NA

record table_row =
  row_operation :: string
  row_python_ms :: int
  row_rust_ms :: int
  row_speedup :: speedup_cell
  row_python_ram :: int
  row_rust_ram :: int

text \<open>
  \<^verbatim>\<open>speedup = f"{py_time / rust_time:.2f}x" if rust_time > 0 else "N/A"\<close>
\<close>

definition speedup_text :: "int \<Rightarrow> int \<Rightarrow> py_error + speedup_cell" where
  "speedup_text py_time rust_time =
     (if rust_time > 0
      then (case truediv py_time rust_time of Inl e \<Rightarrow> Inl e | Inr q \<Rightarrow> Inr (Times q))
      else Inr NA)"

text \<open>
  The loop over \<open>python_data["results"]\<close>. \<open>rust_lookup.get(operation)\<close> is \<open>None\<close>
  for a missing key; a found entry is a mapping with at least the key
  \<open>"operation"\<close>, hence non-empty and true in \<open>if rust_result:\<close>. The third
  argument is the table built so far; \<open>add_row\<close> appends to it.
\<close>

fun add_rows ::
  "(string \<rightharpoonup> benchmark_result) \<Rightarrow> benchmark_result list \<Rightarrow> table_row list
     \<Rightarrow> py_error + table_row list" where
  "add_rows lookup [] table = Inr table"
| "add_rows lookup (py_result # rest) table =
     (case lookup (operation py_result) of
        None \<Rightarrow> add_rows lookup rest table
      | Some rust_result \<Rightarrow>
          (case speedup_text (duration_ms py_result) (duration_ms rust_result) of
             Inl e \<Rightarrow> Inl e
           | Inr speedup \<Rightarrow>
               add_rows lookup rest
                 (table @
                  [\<lparr>row_operation = operation py_result,
                    row_python_ms = duration_ms py_result,
                    row_rust_ms = duration_ms rust_result,
                    row_speedup = speedup,
                    row_python_ram = memory_mb py_result,
                    row_rust_ram = memory_mb rust_result\<rparr>])))"

definition comparison_table :: "result_set \<Rightarrow> result_set \<Rightarrow> py_error + table_row list" where
  "comparison_table python_data rust_data =
     add_rows (rust_lookup rust_data) (results python_data) []"

text \<open>
  The summary statistics of \<open>compare_results\<close>: every sum ranges over the
  \<open>"results"\<close> list of one document.
\<close>

record summary =
  shown_py_total :: int
  shown_rust_total :: int
  shown_overall_speedup :: rat
  shown_py_memory :: int
  shown_rust_memory :: int

definition summary_statistics :: "result_set \<Rightarrow> result_set \<Rightarrow> py_error + summary" where
  "summary_statistics python_data rust_data =
     (let py_total = sum_list (map duration_ms (results python_data));
          rust_total = sum_list (map duration_ms (results rust_data))
      in case (if rust_total > 0 then truediv py_total rust_total else Inr 0) of
           Inl e \<Rightarrow> Inl e
         | Inr overall_speedup \<Rightarrow>
             Inr \<lparr>shown_py_total = py_total,
                  shown_rust_total = rust_total,
                  shown_overall_speedup = overall_speedup,
                  shown_py_memory = sum_list (map memory_mb (results python_data)),
                  shown_rust_memory = sum_list (map memory_mb (results rust_data))\<rparr>)"

subsection \<open>\<^verbatim>\<open>scripts/generate_report.py\<close>\<close>

text \<open>
  \<open>operation.replace('_', ' ').title()\<close> on an identifier of ASCII characters.
  \<open>str.title\<close> walks the string once: a cased character that follows an uncased
  one (or starts the string) is put in upper case, a cased character that follows
  a cased one in lower case, and every other character is copied.
\<close>

definition is_lower :: "char \<Rightarrow> bool" where
  "is_lower c = (CHR ''a'' \<le> c \<and> c \<le> CHR ''z'')"

definition is_upper :: "char \<Rightarrow> bool" where
  "is_upper c = (CHR ''A'' \<le> c \<and> c \<le> CHR ''Z'')"

definition to_upper :: "char \<Rightarrow> char" where
  "to_upper c = (if is_lower c then char_of (of_char c - (32::nat)) else c)"

definition to_lower :: "char \<Rightarrow> char" where
  "to_lower c = (if is_upper c then char_of (of_char c + (32::nat)) else c)"

definition replace :: "char \<Rightarrow> char \<Rightarrow> string \<Rightarrow> string" where
  "replace old new s = map (\<lambda>c. if c = old then new else c) s"

fun title_from :: "bool \<Rightarrow> string \<Rightarrow> string" where
  "title_from previous_is_cased [] = []"
| "title_from previous_is_cased (c # cs) =
     (if is_lower c then
        (if previous_is_cased then c else to_upper c) # title_from True cs
      else if is_upper c then
        (if previous_is_cased then to_lower c else c) # title_from True cs
      else c # title_from False cs)"

definition title :: "string \<Rightarrow> string" where
  "title s = title_from False s"

definition display_name :: "string \<Rightarrow> string" where
  "display_name operation_id = title (replace (CHR ''_'') (CHR '' '') operation_id)"

text \<open>
  \<^verbatim>\<open>py / rust if rust > 0 else 0\<close>: the guarded quotient of \<open>generate_html_report\<close>
  (per row and for the totals) and of the speedup chart.
\<close>

definition guarded_speedup :: "int \<Rightarrow> int \<Rightarrow> py_error + rat" where
  "guarded_speedup py_time rust_time_ms =
     (if rust_time_ms > 0 then truediv py_time rust_time_ms else Inr 0)"

text \<open>The entries of the list \<open>comparisons\<close>; \<open>shown_operation\<close> is the key \<open>"operation"\<close>.\<close>

record comparison =
  shown_operation :: string
  python_time :: int
  rust_time :: int
  speedup :: rat
  python_memory :: int
  rust_memory :: int
  python_rows :: "int option"
  rust_rows :: "int option"

fun append_comparisons ::
  "(string \<rightharpoonup> benchmark_result) \<Rightarrow> benchmark_result list \<Rightarrow> comparison list
     \<Rightarrow> py_error + comparison list" where
  "append_comparisons lookup [] comparisons = Inr comparisons"
| "append_comparisons lookup (py_result # rest) comparisons =
     (case lookup (operation py_result) of
        None \<Rightarrow> append_comparisons lookup rest comparisons
      | Some rust_result \<Rightarrow>
          (case guarded_speedup (duration_ms py_result) (duration_ms rust_result) of
             Inl e \<Rightarrow> Inl e
           | Inr ratio \<Rightarrow>
               append_comparisons lookup rest
                 (comparisons @
                  [\<lparr>shown_operation = display_name (operation py_result),
                    python_time = duration_ms py_result,
                    rust_time = duration_ms rust_result,
                    speedup = ratio,
                    python_memory = memory_mb py_result,
                    rust_memory = memory_mb rust_result,
                    python_rows = rows_processed py_result,
                    rust_rows = rows_processed rust_result\<rparr>])))"

definition report_comparisons :: "result_set \<Rightarrow> result_set \<Rightarrow> py_error + comparison list" where
  "report_comparisons python_data rust_data =
     append_comparisons (rust_lookup rust_data) (results python_data) []"

text \<open>
  The values handed to the template: both documents, the rows and the three
  summary numbers, which are sums over the rows of \<open>comparisons\<close>.
\<close>

record report_context =
  context_python_data :: result_set
  context_rust_data :: result_set
  context_comparisons :: "comparison list"
  total_python_time :: int
  total_rust_time :: int
  context_overall_speedup :: rat
  generation_time :: string

definition report_values ::
  "string \<Rightarrow> result_set \<Rightarrow> result_set \<Rightarrow> py_error + report_context" where
  "report_values now python_data rust_data =
     (case report_comparisons python_data rust_data of
        Inl e \<Rightarrow> Inl e
      | Inr comparisons \<Rightarrow>
          (let total_python = sum_list (map python_time comparisons);
               total_rust = sum_list (map rust_time comparisons)
           in case guarded_speedup total_python total_rust of
                Inl e \<Rightarrow> Inl e
              | Inr overall \<Rightarrow>
                  Inr \<lparr>context_python_data = python_data,
                       context_rust_data = rust_data,
                       context_comparisons = comparisons,
                       total_python_time = total_python,
                       total_rust_time = total_rust,
                       context_overall_speedup = overall,
                       generation_time = now\<rparr>))"

text \<open>
  \<open>create_comparison_plots\<close>: five lists filled by the same loop, then two
  figures. A figure is the data it plots.
\<close>

record plotted =
  plot_operations :: "string list"
  python_times :: "int list"
  rust_times :: "int list"
  plot_python_memory :: "int list"
  plot_rust_memory :: "int list"

datatype figure = Comparison_chart plotted | Speedup_chart "string list" "rat list"

fun append_plotted ::
  "(string \<rightharpoonup> benchmark_result) \<Rightarrow> benchmark_result list \<Rightarrow> plotted \<Rightarrow> plotted" where
  "append_plotted lookup [] filled = filled"
| "append_plotted lookup (py_result # rest) filled =
     (case lookup (operation py_result) of
        None \<Rightarrow> append_plotted lookup rest filled
      | Some rust_result \<Rightarrow>
          append_plotted lookup rest
            \<lparr>plot_operations = plot_operations filled @ [display_name (operation py_result)],
             python_times = python_times filled @ [duration_ms py_result],
             rust_times = rust_times filled @ [duration_ms rust_result],
             plot_python_memory = plot_python_memory filled @ [memory_mb py_result],
             plot_rust_memory = plot_rust_memory filled @ [memory_mb rust_result]\<rparr>)"

fun chart_speedups :: "(int \<times> int) list \<Rightarrow> py_error + rat list" where
  "chart_speedups [] = Inr []"
| "chart_speedups ((py_time, rust_time_ms) # rest) =
     (case guarded_speedup py_time rust_time_ms of
        Inl e \<Rightarrow> Inl e
      | Inr ratio \<Rightarrow>
          (case chart_speedups rest of Inl e \<Rightarrow> Inl e | Inr ratios \<Rightarrow> Inr (ratio # ratios)))"

section \<open>The two scripts\<close>

text \<open>
  What lies outside the scripts: \<open>json.load\<close> (with the loaded mapping read as a
  result set), the plotting library writing a figure, the template engine
  rendering the report, and the current time.
\<close>

record 'c collaborators =
  json_load :: "'c \<Rightarrow> py_error + result_set"
  savefig :: "figure \<Rightarrow> 'c"
  render :: "report_context \<Rightarrow> 'c"
  timestamp_now :: string

text \<open>\<open>a / b\<close> on paths.\<close>

definition joinpath :: "string \<Rightarrow> string \<Rightarrow> string" where
  "joinpath directory name = directory @ ''/'' @ name"

definition python_results_path :: "string \<Rightarrow> string" where
  "python_results_path project_root =
     joinpath (joinpath project_root ''results'') ''python_results.json''"

definition rust_results_path :: "string \<Rightarrow> string" where
  "rust_results_path project_root =
     joinpath (joinpath project_root ''results'') ''rust_results.json''"

text \<open>The lines the scripts print; a table is printed as one item.\<close>

datatype console_line =
    Python_results_not_found string
  | Rust_results_not_found string
  | Comparison_heading
  | Performance_comparison "table_row list"
  | Summary_heading
  | Total_python_time int
  | Total_rust_time int
  | Overall_speedup rat
  | Total_python_memory int
  | Total_rust_memory int
  | Loading_results
  | Creating_charts
  | Generating_report
  | Report_generated string
  | Open_in_browser string

text \<open>
  \<open>compare_results()\<close> of \<^verbatim>\<open>scripts/compare_results.py\<close>. An exception ends the
  script; the model then gives the exception alone.
\<close>

definition compare_results ::
  "'c collaborators \<Rightarrow> string \<Rightarrow> 'c files \<Rightarrow> py_error + console_line list" where
  "compare_results lib project_root fs =
     (if fs (python_results_path project_root) = None then
        Inr [Python_results_not_found (python_results_path project_root)]
      else if fs (rust_results_path project_root) = None then
        Inr [Rust_results_not_found (rust_results_path project_root)]
      else
        (case load_results (json_load lib) fs (python_results_path project_root) of
           Inl e \<Rightarrow> Inl e
         | Inr python_data \<Rightarrow>
        (case load_results (json_load lib) fs (rust_results_path project_root) of
           Inl e \<Rightarrow> Inl e
         | Inr rust_data \<Rightarrow>
        (case comparison_table python_data rust_data of
           Inl e \<Rightarrow> Inl e
         | Inr table \<Rightarrow>
        (case summary_statistics python_data rust_data of
           Inl e \<Rightarrow> Inl e
         | Inr shown \<Rightarrow>
             Inr [Comparison_heading,
                  Performance_comparison table,
                  Summary_heading,
                  Total_python_time (shown_py_total shown),
                  Total_rust_time (shown_rust_total shown),
                  Overall_speedup (shown_overall_speedup shown),
                  Total_python_memory (shown_py_memory shown),
                  Total_rust_memory (shown_rust_memory shown)])))))"

text \<open>\<^verbatim>\<open>scripts/generate_report.py\<close>\<close>

definition create_comparison_plots ::
  "'c collaborators \<Rightarrow> result_set \<Rightarrow> result_set \<Rightarrow> string \<Rightarrow> 'c files \<Rightarrow> py_error + 'c files" where
  "create_comparison_plots lib python_data rust_data output_dir fs =
     (let filled =
            append_plotted (rust_lookup rust_data) (results python_data)
              \<lparr>plot_operations = [], python_times = [], rust_times = [],
               plot_python_memory = [], plot_rust_memory = []\<rparr>;
          fs1 = fs(joinpath output_dir ''comparison_chart.png'' \<mapsto>
                     savefig lib (Comparison_chart filled))
      in case chart_speedups (zip (python_times filled) (rust_times filled)) of
           Inl e \<Rightarrow> Inl e
         | Inr speedups \<Rightarrow>
             Inr (fs1(joinpath output_dir ''speedup_chart.png'' \<mapsto>
                        savefig lib (Speedup_chart (plot_operations filled) speedups))))"

definition generate_html_report ::
  "'c collaborators \<Rightarrow> result_set \<Rightarrow> result_set \<Rightarrow> string \<Rightarrow> 'c files \<Rightarrow> py_error + 'c files" where
  "generate_html_report lib python_data rust_data output_path fs =
     (case report_values (timestamp_now lib) python_data rust_data of
        Inl e \<Rightarrow> Inl e
      | Inr values \<Rightarrow> Inr (fs(output_path \<mapsto> render lib values)))"

definition main ::
  "'c collaborators \<Rightarrow> string \<Rightarrow> 'c files \<Rightarrow> py_error + console_line list \<times> 'c files" where
  "main lib project_root fs =
     (let results_dir = joinpath project_root ''results'' in
      if fs (python_results_path project_root) = None then
        Inr ([Python_results_not_found (python_results_path project_root)], fs)
      else if fs (rust_results_path project_root) = None then
        Inr ([Rust_results_not_found (rust_results_path project_root)], fs)
      else
        (case load_results (json_load lib) fs (python_results_path project_root) of
           Inl e \<Rightarrow> Inl e
         | Inr python_data \<Rightarrow>
        (case load_results (json_load lib) fs (rust_results_path project_root) of
           Inl e \<Rightarrow> Inl e
         | Inr rust_data \<Rightarrow>
        (case create_comparison_plots lib python_data rust_data results_dir fs of
           Inl e \<Rightarrow> Inl e
         | Inr fs1 \<Rightarrow>
        (case generate_html_report lib python_data rust_data
                (joinpath results_dir ''comparison_report.html'') fs1 of
           Inl e \<Rightarrow> Inl e
         | Inr fs2 \<Rightarrow>
             Inr ([Loading_results,
                   Creating_charts,
                   Generating_report,
                   Report_generated (joinpath results_dir ''comparison_report.html''),
                   Open_in_browser (joinpath results_dir ''comparison_report.html'')],
                  fs2))))))"

section \<open>Notions used in the statements\<close>

text \<open>
  The table row and the report entry that the loops append for a baseline entry
  and the candidate entry found for it, with the guarded division carried out.
\<close>

definition paired_row :: "benchmark_result \<Rightarrow> benchmark_result \<Rightarrow> table_row" where
  "paired_row py_result rust_result =
     \<lparr>row_operation = operation py_result,
      row_python_ms = duration_ms py_result,
      row_rust_ms = duration_ms rust_result,
      row_speedup =
        (if duration_ms rust_result > 0
         then Times (of_int (duration_ms py_result) / of_int (duration_ms rust_result))
         else NA),
      row_python_ram = memory_mb py_result,
      row_rust_ram = memory_mb rust_result\<rparr>"

definition paired_comparison :: "benchmark_result \<Rightarrow> benchmark_result \<Rightarrow> comparison" where
  "paired_comparison py_result rust_result =
     \<lparr>shown_operation = display_name (operation py_result),
      python_time = duration_ms py_result,
      rust_time = duration_ms rust_result,
      speedup =
        (if duration_ms rust_result > 0
         then of_int (duration_ms py_result) / of_int (duration_ms rust_result)
         else 0),
      python_memory = memory_mb py_result,
      rust_memory = memory_mb rust_result,
      python_rows = rows_processed py_result,
      rust_rows = rows_processed rust_result\<rparr>"

text \<open>The last entry of a list that carries a given operation identifier.\<close>

definition last_with :: "string \<Rightarrow> benchmark_result list \<Rightarrow> benchmark_result option" where
  "last_with x rs = List.find (\<lambda>r. operation r = x) (rev rs)"

text \<open>The baseline entries whose operation also occurs in the candidate, in baseline order.\<close>

definition matched :: "result_set \<Rightarrow> result_set \<Rightarrow> benchmark_result list" where
  "matched python_data rust_data =
     filter (\<lambda>p. operation p \<in> operation ` set (results rust_data)) (results python_data)"

text \<open>Concrete documents: an entry without a row count, and a document around a list of entries.\<close>

definition entry :: "string \<Rightarrow> int \<Rightarrow> int \<Rightarrow> benchmark_result" where
  "entry name ms mb =
     \<lparr>operation = name, duration_ms = ms, memory_mb = mb, rows_processed = None\<rparr>"

definition document :: "benchmark_result list \<Rightarrow> result_set" where
  "document entries =
     \<lparr>timestamp = ''2024-01-01T00:00:00Z'',
      results = entries,
      system_info = \<lparr>os = ''Linux'', cpu_count = Some 8, total_memory_gb = 16\<rparr>,
      dataset_info = \<lparr>source = ''data.parquet'', rows_limit = None\<rparr>\<rparr>"

text \<open>
  The scenario of the specification: the baseline ran \<open>filter\<close> and \<open>sort\<close>, the
  candidate only \<open>filter\<close>.
\<close>

definition scenario_baseline :: result_set where
  "scenario_baseline = document [entry ''filter'' 100 10, entry ''sort'' 50 5]"

definition scenario_candidate :: result_set where
  "scenario_candidate = document [entry ''filter'' 20 8]"

text \<open>Collaborators over contents that carry no information; every load gives the empty document.\<close>

definition no_library :: "unit collaborators" where
  "no_library =
     \<lparr>json_load = (\<lambda>content. Inr (document [])),
      savefig = (\<lambda>figure. ()),
      render = (\<lambda>shown. ()),
      timestamp_now = ''2024-01-02 00:00:00 UTC''\<rparr>"



text \<open>
  A concrete run: frames are their row counts, the aggregation raises, and every
  probe sees the resident set shrink from 300 MB to 200 MB over two seconds. In
  the second engine the read raises.
\<close>

definition sample_engine :: "int engine" where
  "sample_engine =
     \<lparr>read_parquet = (\<lambda>path options limit. Inr 1000),
      filter_x = (\<lambda>frame. Inr (frame div 2)),
      select_aggregates = (\<lambda>frame. Inl (EngineError ''column not found'')),
      group_by_name = (\<lambda>frame. Inr 10),
      sort_x = (\<lambda>frame. Inr frame),
      complex_pipeline = (\<lambda>frame. Inr 7),
      height = (\<lambda>frame. frame)\<rparr>"

definition sample_probes :: "nat \<Rightarrow> probe" where
  "sample_probes i =
     \<lparr>initial_rss = 314572800, start_time = 1, end_time = 3, final_rss = 209715200\<rparr>"

definition broken_engine :: "int engine" where
  "broken_engine =
     sample_engine\<lparr>read_parquet := (\<lambda>path options limit. Inl FileNotFoundError)\<rparr>"

text \<open>
  Two engines that raise outside \<open>Exception\<close>: the aggregation of the first
  panics, the read of the second is interrupted from the keyboard.
\<close>

definition panicking_engine :: "int engine" where
  "panicking_engine =
     sample_engine\<lparr>select_aggregates := (\<lambda>frame. Inl (PanicException ''index out of bounds''))\<rparr>"

definition interrupted_engine :: "int engine" where
  "interrupted_engine =
     sample_engine\<lparr>read_parquet := (\<lambda>path options limit. Inl KeyboardInterrupt)\<rparr>"

definition sample_host :: host where
  "sample_host =
     \<lparr>platform_system = ''Linux'',
      psutil_cpu_count = Some 8,
      virtual_memory_total = 17179869184,
      utcnow_isoformat = ''2024-01-01T00:00:00''\<rparr>"

text \<open>A suite holding one result that was built without a row count.\<close>

definition finished_suite :: "int suite" where
  "finished_suite =
     (init ''data.parquet'' None)
       \<lparr>suite_results :=
          [\<lparr>operation = ''read_parquet'', duration_ms = 12, memory_mb = 3,
            rows_processed = None\<rparr>]\<rparr>"

text \<open>
  Notions for the text of a document: a mapping has no key twice, at any depth;
  a text does not go on with a digit; a text is at its end or goes on with a comma
  or a line break; a text starts with a character that is neither white space nor
  a closing bracket; and the text of one member of a mapping.
\<close>

fun well_keyed :: "json \<Rightarrow> bool" where
  "well_keyed (JList values) = list_all well_keyed values"
| "well_keyed (JDict members) =
     (distinct (map fst members) \<and> list_all (\<lambda>member. well_keyed (snd member)) members)"
| "well_keyed v = True"

definition not_digit_next :: "string \<Rightarrow> bool" where
  "not_digit_next s = (case s of [] \<Rightarrow> True | c # cs \<Rightarrow> \<not> is_digit c)"

definition delimited :: "string \<Rightarrow> bool" where
  "delimited s = (case s of [] \<Rightarrow> True | c # cs \<Rightarrow> c = CHR '','' \<or> c = CHR 0x0A)"

definition opens_value :: "string \<Rightarrow> bool" where
  "opens_value s =
     (case s of [] \<Rightarrow> False
      | c # cs \<Rightarrow> \<not> is_whitespace c \<and> c \<noteq> CHR '']'' \<and> c \<noteq> CHR ''}'')"

definition encode_member :: "nat \<Rightarrow> string \<times> json \<Rightarrow> string" where
  "encode_member level member =
     encode_string (fst member) @ '': '' @ encode level (snd member)"

section \<open>The candidate lookup\<close>

lemma find_snoc:
  "List.find P (xs @ [x]) =
     (case List.find P xs of Some y \<Rightarrow> Some y | None \<Rightarrow> if P x then Some x else None)"
  by (induction xs) auto

lemma find_over_append:
  "List.find P (xs @ ys) =
     (case List.find P xs of None \<Rightarrow> List.find P ys | Some x \<Rightarrow> Some x)"
  by (induction xs) auto

lemma fold_update_find:
  fixes m :: "string \<rightharpoonup> benchmark_result"
  shows "fold (\<lambda>result lookup. lookup(operation result \<mapsto> result)) rs m x =
           (case last_with x rs of None \<Rightarrow> m x | Some r \<Rightarrow> Some r)"
  by (induction rs arbitrary: m) (auto simp: last_with_def find_snoc split: option.splits)

lemma rust_lookup_last: "rust_lookup rust_data x = last_with x (results rust_data)"
  by (simp add: rust_lookup_def fold_update_find split: option.splits)

lemma rust_lookup_defined:
  "(rust_lookup rust_data x \<noteq> None) = (x \<in> operation ` set (results rust_data))"
  by (auto simp: rust_lookup_last last_with_def find_None_iff)

lemma matched_by_lookup:
  "filter (\<lambda>p. rust_lookup rust_data (operation p) \<noteq> None) (results python_data) =
     matched python_data rust_data"
  unfolding matched_def rust_lookup_defined ..

lemma operations_of_matched:
  "map operation (matched python_data rust_data) =
     filter (\<lambda>x. x \<in> operation ` set (results rust_data)) (map operation (results python_data))"
  by (simp add: matched_def filter_map comp_def)

lemma set_operations_of_matched:
  "operation ` set (matched python_data rust_data) =
     operation ` set (results python_data) \<inter> operation ` set (results rust_data)"
  by (auto simp: matched_def)

section \<open>The two loops never raise\<close>

lemma speedup_text_total:
  "speedup_text a b = Inr (if b > 0 then Times (of_int a / of_int b) else NA)"
  by (simp add: speedup_text_def truediv_def)

lemma guarded_speedup_total:
  "guarded_speedup a b = Inr (if b > 0 then of_int a / of_int b else 0)"
  by (simp add: guarded_speedup_def truediv_def)

lemma add_rows_eq:
  "add_rows lk ps table =
     Inr (table @ map (\<lambda>p. paired_row p (the (lk (operation p))))
                      (filter (\<lambda>p. lk (operation p) \<noteq> None) ps))"
  by (induction ps arbitrary: table) (auto simp: speedup_text_total paired_row_def)

lemma append_comparisons_eq:
  "append_comparisons lk ps acc =
     Inr (acc @ map (\<lambda>p. paired_comparison p (the (lk (operation p))))
                    (filter (\<lambda>p. lk (operation p) \<noteq> None) ps))"
  by (induction ps arbitrary: acc) (auto simp: guarded_speedup_total paired_comparison_def)

lemma comparison_table_eq:
  "comparison_table python_data rust_data =
     Inr (map (\<lambda>p. paired_row p (the (rust_lookup rust_data (operation p))))
              (matched python_data rust_data))"
  unfolding comparison_table_def add_rows_eq matched_by_lookup by simp

lemma report_comparisons_eq:
  "report_comparisons python_data rust_data =
     Inr (map (\<lambda>p. paired_comparison p (the (rust_lookup rust_data (operation p))))
              (matched python_data rust_data))"
  unfolding report_comparisons_def append_comparisons_eq matched_by_lookup by simp

lemma table_operations:
  "map row_operation (map (\<lambda>p. paired_row p (f p)) ps) = map operation ps"
  by (simp add: paired_row_def comp_def)

lemma report_operations:
  "map shown_operation (map (\<lambda>p. paired_comparison p (f p)) ps) =
     map display_name (map operation ps)"
  by (simp add: paired_comparison_def comp_def)

section \<open>Claims about the comparison\<close>

text \<open>
  C1. The claim: the aggregate totals of the comparison (both duration sums, both
  memory sums, the overall speedup) range over the matched rows only. On the
  scenario of the specification \<open>generate_html_report\<close> does so (100, 20, speedup
  5), while the summary of \<open>compare_results\<close> adds the unmatched \<open>sort\<close> entry of the
  baseline: 150 ms, 15 MB and an overall speedup of 7.5, next to a table with the
  single row \<open>filter\<close>.
\<close>

theorem compare_results_totals_cover_unmatched_rows:
  "summary_statistics scenario_baseline scenario_candidate =
     Inr \<lparr>shown_py_total = 150, shown_rust_total = 20, shown_overall_speedup = 15 / 2,
          shown_py_memory = 15, shown_rust_memory = 8\<rparr> \<and>
   comparison_table scenario_baseline scenario_candidate =
     Inr [\<lparr>row_operation = ''filter'', row_python_ms = 100, row_rust_ms = 20,
           row_speedup = Times 5, row_python_ram = 10, row_rust_ram = 8\<rparr>] \<and>
   (\<exists>shown. report_values now scenario_baseline scenario_candidate = Inr shown \<and>
      total_python_time shown = 100 \<and> total_rust_time shown = 20 \<and>
      context_overall_speedup shown = 5)"
  by (simp add: scenario_baseline_def scenario_candidate_def document_def entry_def
        summary_statistics_def comparison_table_def report_values_def
        report_comparisons_def rust_lookup_def truediv_def speedup_text_def guarded_speedup_def)

text \<open>
  C2. A row is produced for an operation exactly when the operation occurs in the
  results of both documents, and the loops return normally whatever the two
  documents hold. For the table of \<open>compare_results\<close> the operations of the rows
  are the operations common to both documents; for the report the labels of the
  rows are the display names of the common operations.
\<close>

theorem comparison_row_iff_operation_in_both:
  "(\<exists>rows. comparison_table python_data rust_data = Inr rows \<and>
       (\<forall>x. (x \<in> row_operation ` set rows) =
            (x \<in> operation ` set (results python_data) \<and>
             x \<in> operation ` set (results rust_data)))) \<and>
   (\<exists>comparisons. report_comparisons python_data rust_data = Inr comparisons \<and>
       shown_operation ` set comparisons =
         display_name ` (operation ` set (results python_data) \<inter>
                         operation ` set (results rust_data)))"
proof (intro conjI exI)
  let ?rows = "map (\<lambda>p. paired_row p (the (rust_lookup rust_data (operation p))))
                 (matched python_data rust_data)"
  let ?comparisons = "map (\<lambda>p. paired_comparison p (the (rust_lookup rust_data (operation p))))
                 (matched python_data rust_data)"
  show "comparison_table python_data rust_data = Inr ?rows"
    by (rule comparison_table_eq)
  show "report_comparisons python_data rust_data = Inr ?comparisons"
    by (rule report_comparisons_eq)
  have "row_operation ` set ?rows = set (map row_operation ?rows)"
    by (simp only: set_map)
  also have "\<dots> = operation ` set (matched python_data rust_data)"
    unfolding table_operations by (simp only: set_map)
  finally have rows: "row_operation ` set ?rows =
      operation ` set (results python_data) \<inter> operation ` set (results rust_data)"
    unfolding set_operations_of_matched .
  show "\<forall>x. (x \<in> row_operation ` set ?rows) =
            (x \<in> operation ` set (results python_data) \<and>
             x \<in> operation ` set (results rust_data))"
    unfolding rows by simp
  have "shown_operation ` set ?comparisons = set (map shown_operation ?comparisons)"
    by (simp only: set_map)
  also have "\<dots> = display_name ` operation ` set (matched python_data rust_data)"
    unfolding report_operations by (simp only: set_map)
  finally show "shown_operation ` set ?comparisons =
      display_name ` (operation ` set (results python_data) \<inter>
                      operation ` set (results rust_data))"
    unfolding set_operations_of_matched .
qed

text \<open>
  C3. Both loops return normally, and in every row they produce a candidate
  duration of zero comes with the sentinel (\<open>"N/A"\<close> in the table, \<open>0\<close> in the
  report) while a positive candidate duration comes with the quotient of the
  baseline duration by the candidate duration.
\<close>

theorem zero_candidate_duration_uses_sentinel:
  "\<exists>rows comparisons.
     comparison_table python_data rust_data = Inr rows \<and>
     report_comparisons python_data rust_data = Inr comparisons \<and>
     (\<forall>row \<in> set rows.
        (row_rust_ms row = 0 \<longrightarrow> row_speedup row = NA) \<and>
        (row_rust_ms row > 0 \<longrightarrow>
           row_speedup row = Times (of_int (row_python_ms row) / of_int (row_rust_ms row)))) \<and>
     (\<forall>c \<in> set comparisons.
        (rust_time c = 0 \<longrightarrow> speedup c = 0) \<and>
        (rust_time c > 0 \<longrightarrow> speedup c = of_int (python_time c) / of_int (rust_time c)))"
  by (auto simp: comparison_table_eq report_comparisons_eq paired_row_def paired_comparison_def)

theorem zero_candidate_duration_uses_sentinel_witness:
  "comparison_table (document [entry ''filter'' 100 10]) (document [entry ''filter'' 0 8]) =
     Inr [\<lparr>row_operation = ''filter'', row_python_ms = 100, row_rust_ms = 0,
           row_speedup = NA, row_python_ram = 10, row_rust_ram = 8\<rparr>] \<and>
   map speedup (projr (report_comparisons (document [entry ''filter'' 100 10])
       (document [entry ''filter'' 0 8]))) = [0]"
  using zero_candidate_duration_uses_sentinel
          [of "document [entry ''filter'' 100 10]" "document [entry ''filter'' 0 8]"]
  by (simp add: document_def entry_def comparison_table_def report_comparisons_def
        rust_lookup_def speedup_text_def guarded_speedup_def truediv_def)

text \<open>
  C7. The rows come in the order of the baseline document: the operations of
  the table rows are the operations of the baseline list, in that order, with
  those absent from the candidate left out; the labels of the report rows are the
  display names of the same sequence.
\<close>

theorem comparison_rows_in_baseline_order:
  "(\<exists>rows. comparison_table python_data rust_data = Inr rows \<and>
       map row_operation rows =
         filter (\<lambda>x. x \<in> operation ` set (results rust_data))
           (map operation (results python_data))) \<and>
   (\<exists>comparisons. report_comparisons python_data rust_data = Inr comparisons \<and>
       map shown_operation comparisons =
         map display_name
           (filter (\<lambda>x. x \<in> operation ` set (results rust_data))
              (map operation (results python_data))))"
  unfolding comparison_table_eq report_comparisons_eq
  by (simp only: table_operations report_operations operations_of_matched sum.inject
        simp_thms ex_simps)

lemma baseline_order_example:
  "comparison_table (document [entry ''sort'' 50 5, entry ''filter'' 100 10])
       (document [entry ''filter'' 20 8, entry ''sort'' 25 4]) =
     Inr [\<lparr>row_operation = ''sort'', row_python_ms = 50, row_rust_ms = 25,
           row_speedup = Times 2, row_python_ram = 5, row_rust_ram = 4\<rparr>,
          \<lparr>row_operation = ''filter'', row_python_ms = 100, row_rust_ms = 20,
           row_speedup = Times 5, row_python_ram = 10, row_rust_ram = 8\<rparr>]"
  by (simp add: document_def entry_def comparison_table_def rust_lookup_def
        speedup_text_def truediv_def)

text \<open>
  C8. When the baseline file or the candidate file is missing, each script
  returns normally after one line that names the first missing file;
  \<open>compare_results\<close> prints nothing else, and \<open>main\<close> of the report script leaves
  the files as they were: no chart and no report is written.
\<close>

theorem missing_input_reported_without_output:
  assumes "fs (python_results_path project_root) = None \<or>
           fs (rust_results_path project_root) = None"
  shows "compare_results lib project_root fs =
           Inr [if fs (python_results_path project_root) = None
                then Python_results_not_found (python_results_path project_root)
                else Rust_results_not_found (rust_results_path project_root)] \<and>
         main lib project_root fs =
           Inr ([if fs (python_results_path project_root) = None
                 then Python_results_not_found (python_results_path project_root)
                 else Rust_results_not_found (rust_results_path project_root)], fs)"
  using assms by (auto simp: compare_results_def main_def)

theorem missing_input_reported_without_output_witness:
  "compare_results no_library ''/repo'' [''/repo/results/python_results.json'' \<mapsto> ()] =
     Inr [Rust_results_not_found ''/repo/results/rust_results.json''] \<and>
   main no_library ''/repo'' [''/repo/results/python_results.json'' \<mapsto> ()] =
     Inr ([Rust_results_not_found ''/repo/results/rust_results.json''],
          [''/repo/results/python_results.json'' \<mapsto> ()])"
  using missing_input_reported_without_output
          [of "[''/repo/results/python_results.json'' \<mapsto> ()]" "''/repo''" no_library]
  by (simp add: python_results_path_def rust_results_path_def joinpath_def)

text \<open>
  C9. When the candidate document holds an entry \<open>r\<close> and no later entry with
  the same operation, the lookup maps that operation to \<open>r\<close>, whatever entries with
  the same operation come earlier. Every baseline entry whose operation occurs in
  the candidate yields a row of its own, built against the entry the lookup holds
  for its operation; baseline entries that share an operation are therefore all
  compared with the same candidate entry.
\<close>

theorem duplicate_candidate_last_wins:
  assumes "results rust_data = earlier @ r # later"
    and "operation r \<notin> operation ` set later"
  shows "rust_lookup rust_data (operation r) = Some r \<and>
         comparison_table python_data rust_data =
           Inr (map (\<lambda>p. paired_row p (the (rust_lookup rust_data (operation p))))
                    (filter (\<lambda>p. operation p \<in> operation ` set (results rust_data))
                       (results python_data))) \<and>
         report_comparisons python_data rust_data =
           Inr (map (\<lambda>p. paired_comparison p (the (rust_lookup rust_data (operation p))))
                    (filter (\<lambda>p. operation p \<in> operation ` set (results rust_data))
                       (results python_data)))"
proof -
  have "List.find (\<lambda>x. operation x = operation r) (rev later) = None"
    unfolding find_None_iff using assms(2) by (metis image_eqI set_rev)
  then have "last_with (operation r) (results rust_data) = Some r"
    by (simp add: last_with_def assms(1) find_over_append)
  then show ?thesis
    by (simp add: rust_lookup_last comparison_table_eq report_comparisons_eq matched_def)
qed

theorem duplicate_candidate_last_wins_witness:
  "rust_lookup (document [entry ''filter'' 20 8, entry ''filter'' 40 9]) ''filter'' =
     Some (entry ''filter'' 40 9) \<and>
   comparison_table (document [entry ''filter'' 100 10, entry ''filter'' 60 7])
       (document [entry ''filter'' 20 8, entry ''filter'' 40 9]) =
     Inr [\<lparr>row_operation = ''filter'', row_python_ms = 100, row_rust_ms = 40,
           row_speedup = Times (5 / 2), row_python_ram = 10, row_rust_ram = 9\<rparr>,
          \<lparr>row_operation = ''filter'', row_python_ms = 60, row_rust_ms = 40,
           row_speedup = Times (3 / 2), row_python_ram = 7, row_rust_ram = 9\<rparr>]"
  using duplicate_candidate_last_wins
          [of "document [entry ''filter'' 20 8, entry ''filter'' 40 9]"
              "[entry ''filter'' 20 8]" "entry ''filter'' 40 9" "[]"
              "document [entry ''filter'' 100 10, entry ''filter'' 60 7]"]
  by (simp add: document_def entry_def paired_row_def)

section \<open>The measurement\<close>




lemma measured_memory:
  "memory_mb (measured p name rows) =
     max 0 (measure_memory (final_rss p) - measure_memory (initial_rss p))"
  by (simp add: measured_def Let_def)

lemma measured_duration:
  "duration_ms (measured p name rows) = py_int ((end_time p - start_time p) * 1000)"
  by (simp add: measured_def Let_def)

lemma py_int_nonneg: "0 \<le> x \<Longrightarrow> 0 \<le> py_int x"
  by (simp add: py_int_def)

lemma on_frame_measured:
  "on_frame work eng p name self = Inr (r, self') \<Longrightarrow> \<exists>rows. r = measured p name rows"
  by (auto simp: on_frame_def split: option.splits sum.splits)

lemma benchmark_read_measured:
  "benchmark_read eng p self = Inr (r, self') \<Longrightarrow> \<exists>rows. r = measured p ''read_parquet'' rows"
  by (auto simp: benchmark_read_def split: sum.splits if_splits)

lemma benchmarks_measured:
  assumes "i < 6" and "snd (benchmarks eng probes ! i) self = Inr (r, self')"
  shows "\<exists>name rows. r = measured (probes i) name rows"
proof -
  from assms(1) consider "i = 0" | "i = 1" | "i = 2" | "i = 3" | "i = 4" | "i = 5"
    by linarith
  then show ?thesis
    using assms(2)
    by cases
      (simp_all add: benchmarks_def benchmark_filter_def benchmark_aggregation_def
         benchmark_group_by_def benchmark_sort_def benchmark_complex_query_def,
       (blast dest: benchmark_read_measured on_frame_measured)+)
qed

lemma benchmarks_nth:
  "(n, f) \<in> set (benchmarks eng probes) \<Longrightarrow> \<exists>i<6. f = snd (benchmarks eng probes ! i)"
proof -
  assume "(n, f) \<in> set (benchmarks eng probes)"
  then obtain i where "i < length (benchmarks eng probes)" "benchmarks eng probes ! i = (n, f)"
    by (auto simp: in_set_conv_nth)
  moreover have "length (benchmarks eng probes) = 6"
    by (simp add: benchmarks_def)
  ultimately show ?thesis
    by (metis snd_conv)
qed

section \<open>The loop of the suite\<close>





lemma run_each_all:
  assumes "run_each bs self collected printed = Inr (collected', self', printed')"
    and "\<forall>(n, f) \<in> set bs. \<forall>s r s'. f s = Inr (r, s') \<longrightarrow> P r"
    and "\<forall>r \<in> set collected. P r"
  shows "\<forall>r \<in> set collected'. P r"
  using assms
proof (induction bs arbitrary: self collected printed)
  case Nil
  then show ?case by simp
next
  case (Cons b bs)
  obtain n f where b: "b = (n, f)" by (cases b)
  have rest: "\<forall>(n, f) \<in> set bs. \<forall>s r s'. f s = Inr (r, s') \<longrightarrow> P r"
    using Cons.prems(2) by simp
  show ?case
  proof (cases "f self")
    case (Inl e)
    then have "run_each bs self collected (printed @ [Error_in n e]) =
        Inr (collected', self', printed')"
      using Cons.prems(1) by (simp add: b split: if_splits)
    from Cons.IH [OF this rest Cons.prems(3)] show ?thesis .
  next
    case (Inr v)
    obtain r s where v: "v = (r, s)" by (cases v)
    have "P r"
      using Cons.prems(2) Inr v by (auto simp: b)
    then have all: "\<forall>x \<in> set (collected @ [r]). P x"
      using Cons.prems(3) by simp
    have "run_each bs s (collected @ [r])
            (printed @ [Completed (operation r) (duration_ms r) (memory_mb r)]) =
          Inr (collected', self', printed')"
      using Cons.prems(1) Inr v by (simp add: b)
    from Cons.IH [OF this rest all] show ?thesis .
  qed
qed

lemma run_all_benchmarks_returns:
  assumes "run_all_benchmarks eng probes self = Inr (collected, self', printed)"
  shows "\<exists>s. run_each (benchmarks eng probes) self [] (announced self) =
               Inr (collected, s, printed) \<and>
             self' = s\<lparr>suite_results := collected\<rparr>"
  using assms by (auto simp: run_all_benchmarks_def split: sum.splits)






lemmas run_defs = run_all_benchmarks_def benchmarks_def benchmark_read_def benchmark_filter_def
  benchmark_aggregation_def benchmark_group_by_def benchmark_sort_def
  benchmark_complex_query_def on_frame_def announced_def init_def startswith_def
  measured_def measure_memory_def py_int_def sample_engine_def sample_probes_def
  broken_engine_def panicking_engine_def interrupted_engine_def

section \<open>Claims about the suite\<close>




text \<open>
  C6. Each of the six methods, when it returns, records as \<open>memory_mb\<close> the
  maximum of zero and the difference of the two memory readings of its probe, so
  a lower reading after the work gives zero. No result of a run has a negative
  \<open>memory_mb\<close>; and when the clock does not go backwards between the two readings
  of each probe (\<open>time.perf_counter\<close> is monotonic), no result of a run has a
  negative \<open>duration_ms\<close>. The results of a run are the list it returns; a run
  that an exception outside \<open>Exception\<close> ends returns none.
\<close>

theorem memory_delta_floored_at_zero:
  "(\<forall>i<6. \<forall>self r self'.
       snd (benchmarks eng probes ! i) self = Inr (r, self') \<longrightarrow>
       memory_mb r =
         max 0 (measure_memory (final_rss (probes i)) - measure_memory (initial_rss (probes i))) \<and>
       (measure_memory (final_rss (probes i)) < measure_memory (initial_rss (probes i)) \<longrightarrow>
          memory_mb r = 0)) \<and>
   (\<forall>collected self' printed.
       run_all_benchmarks eng probes self = Inr (collected, self', printed) \<longrightarrow>
       (\<forall>r \<in> set collected. 0 \<le> memory_mb r)) \<and>
   ((\<forall>i<6. start_time (probes i) \<le> end_time (probes i)) \<longrightarrow>
    (\<forall>collected self' printed.
       run_all_benchmarks eng probes self = Inr (collected, self', printed) \<longrightarrow>
       (\<forall>r \<in> set collected. 0 \<le> duration_ms r)))"
proof (intro conjI allI impI)
  fix i s r s'
  assume "i < 6" and "snd (benchmarks eng probes ! i) s = Inr (r, s')"
  from benchmarks_measured [OF this] obtain name rows where
    r: "r = measured (probes i) name rows" by blast
  show "memory_mb r =
      max 0 (measure_memory (final_rss (probes i)) - measure_memory (initial_rss (probes i)))"
    by (simp add: r measured_memory)
  assume "measure_memory (final_rss (probes i)) < measure_memory (initial_rss (probes i))"
  then show "memory_mb r = 0"
    by (simp add: r measured_memory)
next
  fix collected self' printed
  assume "run_all_benchmarks eng probes self = Inr (collected, self', printed)"
  from run_all_benchmarks_returns [OF this] obtain s where
    run: "run_each (benchmarks eng probes) self [] (announced self) = Inr (collected, s, printed)"
    by blast
  have "\<forall>(n, f) \<in> set (benchmarks eng probes). \<forall>s r s'.
          f s = Inr (r, s') \<longrightarrow> 0 \<le> memory_mb r"
  proof (intro ballI, clarify)
    fix n f s r s'
    assume "(n, f) \<in> set (benchmarks eng probes)" and f: "f s = Inr (r, s')"
    then obtain i where "i < 6" "f = snd (benchmarks eng probes ! i)"
      using benchmarks_nth by blast
    with f benchmarks_measured [of i eng probes s r s'] obtain name rows where
      "r = measured (probes i) name rows" by blast
    then show "0 \<le> memory_mb r"
      by (simp add: measured_memory)
  qed
  from run_each_all [OF run this] show "\<forall>r \<in> set collected. 0 \<le> memory_mb r"
    by simp
next
  fix collected self' printed
  assume mono: "\<forall>i<6. start_time (probes i) \<le> end_time (probes i)"
  assume "run_all_benchmarks eng probes self = Inr (collected, self', printed)"
  from run_all_benchmarks_returns [OF this] obtain s where
    run: "run_each (benchmarks eng probes) self [] (announced self) = Inr (collected, s, printed)"
    by blast
  have "\<forall>(n, f) \<in> set (benchmarks eng probes). \<forall>s r s'.
          f s = Inr (r, s') \<longrightarrow> 0 \<le> duration_ms r"
  proof (intro ballI, clarify)
    fix n f s r s'
    assume "(n, f) \<in> set (benchmarks eng probes)" and f: "f s = Inr (r, s')"
    then obtain i where i: "i < 6" "f = snd (benchmarks eng probes ! i)"
      using benchmarks_nth by blast
    with f benchmarks_measured [of i eng probes s r s'] obtain name rows where
      r: "r = measured (probes i) name rows" by blast
    have "0 \<le> (end_time (probes i) - start_time (probes i)) * 1000"
      using mono i(1) by simp
    then show "0 \<le> duration_ms r"
      by (simp add: r measured_duration py_int_nonneg)
  qed
  from run_each_all [OF run this] show "\<forall>r \<in> set collected. 0 \<le> duration_ms r"
    by simp
qed

theorem memory_delta_floored_at_zero_witness:
  "(\<exists>collected self' printed.
      run_all_benchmarks sample_engine sample_probes (init ''data.parquet'' None) =
        Inr (collected, self', printed) \<and>
      map memory_mb collected = [0, 0, 0, 0, 0] \<and>
      map duration_ms collected = [2000, 2000, 2000, 2000, 2000]) \<and>
   measure_memory (final_rss (sample_probes 0)) = 200 \<and>
   measure_memory (initial_rss (sample_probes 0)) = 300 \<and>
   start_time (sample_probes 0) \<le> end_time (sample_probes 0)"
  using memory_delta_floored_at_zero
          [of sample_engine sample_probes "init ''data.parquet'' None"]
  by (simp add: run_defs Let_def)

text \<open>
  C10, as stated: on a fresh suite, whenever the read raises, every later
  operation raises too and the run returns the empty list. The loop catches
  \<open>Exception\<close> only. In the run below the read is interrupted from the keyboard:
  the run ends with that exception, returns no list, and no later operation is
  called.
\<close>

theorem interrupted_read_ends_run:
  "df (init ''data.parquet'' None :: int suite) = None \<and>
   benchmark_read interrupted_engine (sample_probes 0) (init ''data.parquet'' None) =
     Inl KeyboardInterrupt \<and>
   run_all_benchmarks interrupted_engine sample_probes (init ''data.parquet'' None) =
     Inl KeyboardInterrupt"
  by (simp add: run_defs Let_def)

text \<open>
  C10, amended. On a suite whose attribute \<open>df\<close> has not been assigned, as
  \<open>init\<close> leaves it, a read that raises an \<open>Exception\<close> is followed by five methods
  that each raise \<open>AttributeError\<close>: the run returns the empty list, keeps the empty
  list as the results of the suite and reports six failures.
\<close>

theorem failed_read_leaves_no_results:
  assumes "df self = None"
    and "benchmark_read eng (probes 0) self = Inl e"
    and "is_Exception e"
  shows "run_all_benchmarks eng probes self =
           Inr ([], self\<lparr>suite_results := []\<rparr>,
                announced self @
                [Error_in ''benchmark_read'' e,
                 Error_in ''benchmark_filter'' AttributeError,
                 Error_in ''benchmark_aggregation'' AttributeError,
                 Error_in ''benchmark_group_by'' AttributeError,
                 Error_in ''benchmark_sort'' AttributeError,
                 Error_in ''benchmark_complex_query'' AttributeError])"
  using assms
  by (simp add: run_all_benchmarks_def benchmarks_def benchmark_filter_def
        benchmark_aggregation_def benchmark_group_by_def benchmark_sort_def
        benchmark_complex_query_def on_frame_def)

theorem failed_read_leaves_no_results_witness:
  "run_all_benchmarks broken_engine sample_probes (init ''missing.parquet'' None) =
     Inr ([], init ''missing.parquet'' None,
          [Starting, Data_source ''missing.parquet'',
           Error_in ''benchmark_read'' FileNotFoundError,
           Error_in ''benchmark_filter'' AttributeError,
           Error_in ''benchmark_aggregation'' AttributeError,
           Error_in ''benchmark_group_by'' AttributeError,
           Error_in ''benchmark_sort'' AttributeError,
           Error_in ''benchmark_complex_query'' AttributeError])"
  using failed_read_leaves_no_results
          [of "init ''missing.parquet'' None" broken_engine sample_probes FileNotFoundError]
  by (simp add: init_def startswith_def benchmark_read_def broken_engine_def sample_engine_def
        announced_def)

section \<open>The text of a document is read back\<close>

subsection \<open>Characters\<close>

lemma code_point_char_of: "n < 256 \<Longrightarrow> code_point (char_of n) = n"
  by (simp add: code_point_def)

lemma code_point_bound: "code_point c < 256"
  by (simp add: code_point_def)

lemma char_eq_code: "(c = d) = (code_point c = code_point d)"
  by (simp add: code_point_def)

lemma char_of_code_point: "char_of (code_point c) = c"
  by (simp add: code_point_def)

subsection \<open>Integers\<close>

lemma digits_nonempty: "digits n \<noteq> []"
  by (induction n rule: digits.induct) (subst digits.simps, simp)

lemma digit_char: "d < 10 \<Longrightarrow> is_digit (char_of (48 + d)) \<and> code_point (char_of (48 + d)) - 48 = d"
  by (simp add: is_digit_def code_point_char_of)

lemma digits_all: "c \<in> set (digits n) \<Longrightarrow> is_digit c"
proof (induction n rule: digits.induct)
  case (1 n)
  show ?case
  proof (cases "n < 10")
    case True
    with "1.prems" show ?thesis
      by (subst (asm) digits.simps) (simp add: digit_char)
  next
    case False
    have "n mod 10 < 10" by simp
    with False "1.prems" "1.IH" show ?thesis
      by (subst (asm) digits.simps) (auto simp: digit_char)
  qed
qed

lemma number_of_snoc: "number_of (ds @ [c]) = 10 * number_of ds + (code_point c - 48)"
  by (simp add: number_of_def)

lemma number_of_digits: "number_of (digits n) = n"
proof (induction n rule: digits.induct)
  case (1 n)
  show ?case
  proof (cases "n < 10")
    case True
    then show ?thesis
      by (subst digits.simps) (simp add: number_of_def digit_char)
  next
    case False
    have "n mod 10 < 10" by simp
    then have "code_point (char_of (48 + n mod 10)) - 48 = n mod 10"
      using digit_char by blast
    with False "1.IH" show ?thesis
      by (subst digits.simps) (simp add: number_of_snoc)
  qed
qed

lemma digits_head: "0 < n \<Longrightarrow> \<exists>c cs. digits n = c # cs \<and> c \<noteq> CHR ''0'' \<and> is_digit c"
proof (induction n rule: digits.induct)
  case (1 n)
  show ?case
  proof (cases "n < 10")
    case True
    with "1.prems" have "char_of (48 + n) \<noteq> CHR ''0''"
      by (simp add: char_eq_code code_point_char_of) (simp add: code_point_def)
    with True show ?thesis
      by (subst digits.simps) (simp add: digit_char)
  next
    case False
    then have "0 < n div 10" by simp
    with False "1.IH" obtain c cs where "digits (n div 10) = c # cs" "c \<noteq> CHR ''0''" "is_digit c"
      by blast
    with False show ?thesis
      by (subst digits.simps) simp
  qed
qed

lemma digits_zero: "digits 0 = ''0''"
  by (subst digits.simps) (simp add: char_eq_code code_point_char_of, simp add: code_point_def)

lemma take_digits:
  "not_digit_next rest \<Longrightarrow> takeWhile is_digit (digits n @ rest) = digits n"
  "not_digit_next rest \<Longrightarrow> dropWhile is_digit (digits n @ rest) = rest"
  by (auto simp: not_digit_next_def takeWhile_append dropWhile_append digits_all
        split: list.splits)

lemma minus_not_digit: "\<not> is_digit (CHR ''-'')"
  by (simp add: is_digit_def code_point_def)

lemma scan_integer_repr:
  assumes "not_digit_next rest"
  shows "scan_integer (repr_int i @ rest) = Some (i, rest)"
proof -
  consider "i = 0" | "0 < i" | "i < 0" by linarith
  then show ?thesis
  proof cases
    case 1
    then show ?thesis
      by (simp add: repr_int_def digits_zero scan_integer_def)
  next
    case 2
    then have "0 < nat i" by simp
    from digits_head [OF this] obtain c cs where
      d: "digits (nat i) = c # cs" "c \<noteq> CHR ''0''" "is_digit c" by blast
    have "c \<noteq> CHR ''-''"
      using d(3) minus_not_digit by auto
    moreover have "takeWhile is_digit (c # cs @ rest) = c # cs"
      "dropWhile is_digit (c # cs @ rest) = rest"
      using take_digits [OF assms, of "nat i"] d(1) by simp_all
    moreover have "number_of (c # cs) = nat i"
      using number_of_digits [of "nat i"] d(1) by simp
    ultimately show ?thesis
      using 2 d by (simp add: repr_int_def scan_integer_def Let_def)
  next
    case 3
    then have "0 < nat (- i)" by simp
    from digits_head [OF this] obtain c cs where
      d: "digits (nat (- i)) = c # cs" "c \<noteq> CHR ''0''" "is_digit c" by blast
    have "takeWhile is_digit (c # cs @ rest) = c # cs"
      "dropWhile is_digit (c # cs @ rest) = rest"
      using take_digits [OF assms, of "nat (- i)"] d(1) by simp_all
    moreover have "number_of (c # cs) = nat (- i)"
      using number_of_digits [of "nat (- i)"] d(1) by simp
    ultimately show ?thesis
      using 3 d by (simp add: repr_int_def scan_integer_def Let_def)
  qed
qed

lemma delimited_not_digit: "delimited rest \<Longrightarrow> not_digit_next rest"
  by (auto simp: delimited_def not_digit_next_def is_digit_def code_point_def split: list.splits)

lemma scan_number_repr:
  "delimited rest \<Longrightarrow> scan_number (repr_int i @ rest) = Some (JInt i, rest)"
  by (auto simp: scan_number_def scan_integer_repr delimited_not_digit delimited_def
        split: list.splits)

lemma repr_int_first:
  "\<exists>c cs. repr_int i = c # cs \<and> (c = CHR ''-'' \<or> is_digit c)"
proof (cases "i < 0")
  case True
  then show ?thesis by (simp add: repr_int_def)
next
  case False
  obtain c cs where "digits (nat i) = c # cs"
    using digits_nonempty [of "nat i"] by (cases "digits (nat i)") auto
  moreover have "is_digit c"
    using digits_all [of c "nat i"] calculation by simp
  ultimately show ?thesis
    using False by (simp add: repr_int_def)
qed

subsection \<open>Strings\<close>

lemma hex_value_digit: "d < 16 \<Longrightarrow> hex_value (hex_digit d) = Some d"
  by (simp add: hex_value_def hex_digit_def code_point_char_of Let_def)

lemma decode_escape:
  "decode_uXXXX [CHR ''0'', CHR ''0'', hex_digit (code_point c div 16), hex_digit (code_point c mod 16)] =
     Some (code_point c)"
proof -
  have "code_point c div 16 < 16"
    using code_point_bound [of c] by simp
  moreover have "code_point c mod 16 < 16" by simp
  moreover have "hex_value (CHR ''0'') = Some 0"
    by (simp add: hex_value_def code_point_def)
  ultimately show ?thesis
    by (simp add: decode_uXXXX_def hex_value_digit)
qed

lemma scanstring_escape:
  "scanstring (escape c @ tail) =
     (case scanstring tail of None \<Rightarrow> None | Some (decoded, after) \<Rightarrow> Some (c # decoded, after))"
proof -
  consider (c1) "c = CHR 0x22" | (c2) "c = CHR 0x5C" | (c3) "c = CHR 0x0A"
    | (c4) "c = CHR 0x0D" | (c5) "c = CHR 0x09" | (c6) "c = CHR 0x08" | (c7) "c = CHR 0x0C"
    | (hex) "c \<noteq> CHR 0x22" "c \<noteq> CHR 0x5C" "c \<noteq> CHR 0x0A" "c \<noteq> CHR 0x0D" "c \<noteq> CHR 0x09"
        "c \<noteq> CHR 0x08" "c \<noteq> CHR 0x0C" "code_point c < 32 \<or> 126 < code_point c"
    | (raw) "c \<noteq> CHR 0x22" "c \<noteq> CHR 0x5C" "\<not> (code_point c < 32 \<or> 126 < code_point c)"
        "c \<noteq> CHR 0x0A" "c \<noteq> CHR 0x0D" "c \<noteq> CHR 0x09" "c \<noteq> CHR 0x08" "c \<noteq> CHR 0x0C"
    by blast
  then show ?thesis
  proof cases
    case hex
    have "code_point c \<le> 255"
      using code_point_bound [of c] by simp
    then show ?thesis
      using hex by (simp add: escape_def decode_escape char_of_code_point split: option.splits)
  next
    case raw
    then show ?thesis
      by (simp add: escape_def split: option.splits)
  qed (simp_all add: escape_def backslash_def split: option.splits)
qed

lemma scanstring_escaped:
  "scanstring (concat (map escape s) @ CHR 0x22 # rest) = Some (s, rest)"
  by (induction s) (simp_all add: scanstring_escape)

subsection \<open>White space\<close>

lemma skip_newline_indent: "skip_whitespace (newline_indent k @ s) = skip_whitespace s"
proof -
  have "skip_whitespace (replicate m (CHR '' '') @ s) = skip_whitespace s" for m
    by (induction m) (simp_all add: skip_whitespace_def is_whitespace_def)
  then show ?thesis
    by (simp add: newline_indent_def skip_whitespace_def is_whitespace_def)
qed

lemma skip_none: "\<not> is_whitespace c \<Longrightarrow> skip_whitespace (c # s) = c # s"
  by (simp add: skip_whitespace_def)

subsection \<open>Mappings without a repeated key\<close>

lemma upsert_fresh: "key \<notin> fst ` set d \<Longrightarrow> upsert d key v = d @ [(key, v)]"
  by (induction d) auto

lemma fold_upsert_distinct:
  "distinct (map fst (d @ pairs)) \<Longrightarrow>
     fold (\<lambda>pair d. upsert d (fst pair) (snd pair)) pairs d = d @ pairs"
proof (induction pairs arbitrary: d)
  case Nil
  then show ?case by simp
next
  case (Cons p pairs)
  have fresh: "fst p \<notin> fst ` set d"
    using Cons.prems by auto
  have "distinct (map fst ((d @ [p]) @ pairs))"
    using Cons.prems by simp
  from Cons.IH [OF this] show ?case
    by (simp add: upsert_fresh [OF fresh])
qed

lemma dict_of_distinct: "distinct (map fst pairs) \<Longrightarrow> dict_of pairs = pairs"
  using fold_upsert_distinct [of "[]" pairs] by (simp add: dict_of_def)

subsection \<open>First characters\<close>

lemma digit_or_minus_plain:
  assumes "c = CHR ''-'' \<or> is_digit c"
  shows "c \<noteq> CHR 0x22" "c \<noteq> CHR ''{''" "c \<noteq> CHR ''[''" "c \<noteq> CHR ''n''" "c \<noteq> CHR ''t''"
    "c \<noteq> CHR ''f''" "\<not> is_whitespace c" "c \<noteq> CHR '']''" "c \<noteq> CHR ''}''"
  using assms by (auto simp: is_digit_def code_point_def is_whitespace_def)

lemma encode_opens: "opens_value (encode level v)"
proof (cases v)
  case (JInt i)
  obtain c cs where "repr_int i = c # cs" "c = CHR ''-'' \<or> is_digit c"
    using repr_int_first by blast
  then show ?thesis
    using digit_or_minus_plain [of c] by (simp add: JInt opens_value_def)
qed (simp_all add: opens_value_def is_whitespace_def encode_string_def)

lemma opens_value_append: "opens_value s \<Longrightarrow> opens_value (s @ t)"
  by (cases s) (simp_all add: opens_value_def)

lemma join_opens:
  "xs \<noteq> [] \<Longrightarrow> opens_value (hd xs) \<Longrightarrow> opens_value (join separator xs)"
  by (induction separator xs rule: join.induct) (simp_all add: opens_value_append)

lemma skip_opens: "opens_value s \<Longrightarrow> skip_whitespace (s @ t) = s @ t"
  by (cases s) (simp_all add: opens_value_def skip_whitespace_def)

lemma delimited_newline: "delimited (newline_indent k @ s)"
  by (simp add: delimited_def newline_indent_def)

lemma delimited_comma: "delimited (CHR '','' # s)"
  by (simp add: delimited_def)

subsection \<open>Lists\<close>

lemma parse_elements_join:
  assumes "\<forall>v \<in> set values. \<forall>fuel level rest.
             length (encode level v) \<le> fuel \<longrightarrow> delimited rest \<longrightarrow>
             parse_value fuel (encode level v @ rest) = Some (v, rest)"
    and "values \<noteq> []"
    and "length (join (CHR '','' # newline_indent (Suc level)) (map (encode (Suc level)) values)) < fuel"
  shows "parse_elements fuel
           (join (CHR '','' # newline_indent (Suc level)) (map (encode (Suc level)) values) @
            newline_indent level @ CHR '']'' # rest) =
         Some (values, rest)"
  using assms
proof (induction "values" arbitrary: fuel)
  case Nil
  then show ?case by simp
next
  case (Cons v vs)
  obtain k where fuel: "fuel = Suc k"
    using Cons.prems(3) by (cases fuel) auto
  have v: "\<And>fuel level rest. length (encode level v) \<le> fuel \<Longrightarrow> delimited rest \<Longrightarrow>
      parse_value fuel (encode level v @ rest) = Some (v, rest)"
    using Cons.prems(1) by simp
  show ?case
  proof (cases vs)
    case Nil
    have "length (encode (Suc level) v) \<le> k"
      using Cons.prems(3) by (simp add: Nil fuel)
    from v [OF this delimited_newline]
    have "parse_value k (encode (Suc level) v @ newline_indent level @ CHR '']'' # rest) =
        Some (v, newline_indent level @ CHR '']'' # rest)" .
    moreover have "skip_whitespace (newline_indent level @ CHR '']'' # rest) = CHR '']'' # rest"
      by (simp add: skip_newline_indent skip_none is_whitespace_def)
    ultimately show ?thesis
      by (simp add: Nil fuel)
  next
    case (Cons w ws)
    let ?sep = "CHR '','' # newline_indent (Suc level)"
    let ?tail = "join ?sep (map (encode (Suc level)) (w # ws)) @ newline_indent level @ CHR '']'' # rest"
    have len: "length (encode (Suc level) v) \<le> k"
      "length (join ?sep (map (encode (Suc level)) (w # ws))) < k"
      using Cons.prems(3) by (simp_all add: Cons fuel newline_indent_def)
    have first: "parse_value k (encode (Suc level) v @ CHR '','' # newline_indent (Suc level) @ ?tail) =
        Some (v, CHR '','' # newline_indent (Suc level) @ ?tail)"
      by (rule v [OF len(1) delimited_comma])
    have opens: "opens_value (join ?sep (map (encode (Suc level)) (w # ws)))"
      by (rule join_opens) (simp_all add: encode_opens)
    have skip: "skip_whitespace (newline_indent (Suc level) @ ?tail) = ?tail"
      unfolding skip_newline_indent by (rule skip_opens [OF opens])
    have rest: "parse_elements k ?tail = Some (w # ws, rest)"
      using Cons.IH [of k] Cons.prems(1) len(2) by (simp add: Cons)
    show ?thesis
      using first skip rest
      by (simp add: Cons fuel skip_none is_whitespace_def)
  qed
qed

lemma parse_value_array:
  assumes "skip_whitespace cs = d # ds" and "d \<noteq> CHR '']''"
    and "parse_elements k (d # ds) = Some (vs, after)"
  shows "parse_value (Suc k) (CHR ''['' # cs) = Some (JList vs, after)"
  using assms by simp

lemma parse_value_object:
  assumes "skip_whitespace cs = d # ds" and "d \<noteq> CHR ''}''"
    and "parse_members k (d # ds) = Some (ms, after)"
  shows "parse_value (Suc k) (CHR ''{'' # cs) = Some (JDict (dict_of ms), after)"
  using assms by simp

subsection \<open>Members\<close>

lemma encode_member_opens: "opens_value (encode_member level member)"
  by (simp add: encode_member_def encode_string_def opens_value_def is_whitespace_def)

lemma parse_member_prefix:
  assumes "length (encode level v) \<le> k" and "delimited tail"
    and "\<And>fuel level rest. length (encode level v) \<le> fuel \<Longrightarrow> delimited rest \<Longrightarrow>
           parse_value fuel (encode level v @ rest) = Some (v, rest)"
  shows "parse_members (Suc k) (encode_member level (key, v) @ tail) =
           (case skip_whitespace tail of
              [] \<Rightarrow> None
            | c # cs \<Rightarrow>
                if c = CHR ''}'' then Some ([(key, v)], cs)
                else if c = CHR '','' then
                  (case parse_members k (skip_whitespace cs) of
                     None \<Rightarrow> None
                   | Some (pairs, rest) \<Rightarrow> Some ((key, v) # pairs, rest))
                else None)"
proof -
  have shape: "encode_member level (key, v) @ tail =
      CHR 0x22 # concat (map escape key) @ CHR 0x22 # CHR '':'' # CHR '' '' # encode level v @ tail"
    by (simp add: encode_member_def encode_string_def)
  have key: "scanstring (concat (map escape key) @ CHR 0x22 # CHR '':'' # CHR '' '' # encode level v @ tail) =
      Some (key, CHR '':'' # CHR '' '' # encode level v @ tail)"
    by (rule scanstring_escaped)
  have colon: "skip_whitespace (CHR '':'' # CHR '' '' # encode level v @ tail) =
      CHR '':'' # CHR '' '' # encode level v @ tail"
    by (simp add: skip_none is_whitespace_def)
  have space: "skip_whitespace (CHR '' '' # encode level v @ tail) = encode level v @ tail"
    using skip_opens [OF encode_opens, of level v tail]
    by (simp add: skip_whitespace_def is_whitespace_def)
  have val: "parse_value k (encode level v @ tail) = Some (v, tail)"
    by (rule assms(3) [OF assms(1) assms(2)])
  show ?thesis
    unfolding shape by (simp add: key colon space val del: scanstring.simps)
qed

lemma parse_members_join:
  assumes "\<forall>member \<in> set members. \<forall>fuel level rest.
             length (encode level (snd member)) \<le> fuel \<longrightarrow> delimited rest \<longrightarrow>
             parse_value fuel (encode level (snd member) @ rest) = Some (snd member, rest)"
    and "members \<noteq> []"
    and "length (join (CHR '','' # newline_indent (Suc level))
                   (map (encode_member (Suc level)) members)) < fuel"
  shows "parse_members fuel
           (join (CHR '','' # newline_indent (Suc level)) (map (encode_member (Suc level)) members) @
            newline_indent level @ CHR ''}'' # rest) =
         Some (members, rest)"
  using assms
proof (induction members arbitrary: fuel)
  case Nil
  then show ?case by simp
next
  case (Cons m ms)
  obtain key v where m: "m = (key, v)" by (cases m)
  obtain k where fuel: "fuel = Suc k"
    using Cons.prems(3) by (cases fuel) auto
  have v: "\<And>fuel level rest. length (encode level v) \<le> fuel \<Longrightarrow> delimited rest \<Longrightarrow>
      parse_value fuel (encode level v @ rest) = Some (v, rest)"
    using Cons.prems(1) by (simp add: m)
  have shorter: "length (encode (Suc level) v) \<le> length (encode_member (Suc level) (key, v))"
    by (simp add: encode_member_def)
  show ?case
  proof (cases ms)
    case Nil
    have "length (encode (Suc level) v) \<le> k"
      using Cons.prems(3) shorter by (simp add: Nil fuel m)
    from parse_member_prefix [OF this delimited_newline v]
    have "parse_members (Suc k)
            (encode_member (Suc level) (key, v) @ newline_indent level @ CHR ''}'' # rest) =
          Some ([(key, v)], rest)"
      by (simp add: skip_newline_indent skip_none is_whitespace_def)
    then show ?thesis
      by (simp add: Nil fuel m del: parse_members.simps)
  next
    case (Cons w ws)
    let ?sep = "CHR '','' # newline_indent (Suc level)"
    let ?tail = "join ?sep (map (encode_member (Suc level)) (w # ws)) @
                 newline_indent level @ CHR ''}'' # rest"
    have len: "length (encode (Suc level) v) \<le> k"
      "length (join ?sep (map (encode_member (Suc level)) (w # ws))) < k"
      using Cons.prems(3) shorter by (simp_all add: Cons fuel m newline_indent_def)
    have opens: "opens_value (join ?sep (map (encode_member (Suc level)) (w # ws)))"
      by (rule join_opens) (simp_all add: encode_member_opens)
    have skip: "skip_whitespace (newline_indent (Suc level) @ ?tail) = ?tail"
      unfolding skip_newline_indent by (rule skip_opens [OF opens])
    have rest: "parse_members k ?tail = Some (w # ws, rest)"
      using Cons.IH [of k] Cons.prems(1) len(2) by (simp add: Cons)
    have "parse_members (Suc k)
            (encode_member (Suc level) (key, v) @ CHR '','' # newline_indent (Suc level) @ ?tail) =
          (case skip_whitespace (CHR '','' # newline_indent (Suc level) @ ?tail) of
              [] \<Rightarrow> None
            | c # cs \<Rightarrow>
                if c = CHR ''}'' then Some ([(key, v)], cs)
                else if c = CHR '','' then
                  (case parse_members k (skip_whitespace cs) of
                     None \<Rightarrow> None
                   | Some (pairs, rest) \<Rightarrow> Some ((key, v) # pairs, rest))
                else None)"
      by (rule parse_member_prefix [OF len(1) delimited_comma v])
    also have "\<dots> = Some ((key, v) # w # ws, rest)"
      using skip rest by (simp add: skip_none is_whitespace_def del: parse_members.simps)
    finally have "parse_members (Suc k)
            (encode_member (Suc level) (key, v) @ CHR '','' # newline_indent (Suc level) @ ?tail) =
          Some ((key, v) # w # ws, rest)" .
    then show ?thesis
      by (simp add: Cons fuel m del: parse_members.simps)
  qed
qed

subsection \<open>Values\<close>

lemma encode_list:
  "vs \<noteq> [] \<Longrightarrow>
   encode level (JList vs) @ rest =
     CHR ''['' # (newline_indent (Suc level) @
     join (CHR '','' # newline_indent (Suc level)) (map (encode (Suc level)) vs) @
     newline_indent level @ CHR '']'' # rest)"
  by simp

lemma encode_dict:
  "members \<noteq> [] \<Longrightarrow>
   encode level (JDict members) @ rest =
     CHR ''{'' # (newline_indent (Suc level) @
     join (CHR '','' # newline_indent (Suc level)) (map (encode_member (Suc level)) members) @
     newline_indent level @ CHR ''}'' # rest)"
proof -
  have "(\<lambda>member. encode_string (fst member) @ '': '' @ encode (Suc level) (snd member)) =
      encode_member (Suc level)"
    by (simp add: encode_member_def fun_eq_iff)
  then show "members \<noteq> [] \<Longrightarrow> ?thesis"
    by simp
qed

lemma parse_value_encode:
  "well_keyed v \<Longrightarrow> length (encode level v) \<le> fuel \<Longrightarrow> delimited rest \<Longrightarrow>
     parse_value fuel (encode level v @ rest) = Some (v, rest)"
proof (induction v arbitrary: fuel level rest)
  case JNull
  then obtain k where "fuel = Suc k" by (cases fuel) auto
  then show ?case by simp
next
  case (JBool b)
  then obtain k where "fuel = Suc k" by (cases fuel) (auto split: if_splits)
  then show ?case by simp
next
  case (JInt i)
  obtain c cs where r: "repr_int i = c # cs" "c = CHR ''-'' \<or> is_digit c"
    using repr_int_first by blast
  obtain k where fuel: "fuel = Suc k"
    using JInt.prems(2) r(1) by (cases fuel) auto
  have "scan_number (c # cs @ rest) = Some (JInt i, rest)"
    using scan_number_repr [OF JInt.prems(3), of i] r(1) by simp
  then show ?case
    using digit_or_minus_plain [OF r(2)] by (simp add: fuel r(1))
next
  case (JStr s)
  then obtain k where "fuel = Suc k" by (cases fuel) (auto simp: encode_string_def)
  then show ?case
    by (simp add: encode_string_def scanstring_escaped)
next
  case (JList vs)
  obtain k where fuel: "fuel = Suc k"
    using JList.prems(2) by (cases fuel) (auto split: if_splits)
  show ?case
  proof (cases "vs = []")
    case True
    then show ?thesis
      by (simp add: fuel skip_none is_whitespace_def)
  next
    case False
    let ?items = "join (CHR '','' # newline_indent (Suc level)) (map (encode (Suc level)) vs)"
    let ?closing = "newline_indent level @ CHR '']'' # rest"
    have elements: "\<forall>v \<in> set vs. \<forall>fuel level rest.
        length (encode level v) \<le> fuel \<longrightarrow> delimited rest \<longrightarrow>
        parse_value fuel (encode level v @ rest) = Some (v, rest)"
      using JList.IH JList.prems(1) by (auto simp: list_all_iff)
    have "length ?items < k"
      using JList.prems(2) False by (simp add: fuel newline_indent_def)
    from parse_elements_join [OF elements False this]
    have parsed: "parse_elements k (?items @ ?closing) = Some (vs, rest)" .
    have opens: "opens_value ?items"
      using False by (intro join_opens) (simp_all add: encode_opens hd_map)
    then obtain d ds where items: "?items @ ?closing = d # ds" and d: "d \<noteq> CHR '']''"
      by (cases ?items) (auto simp: opens_value_def)
    have skip: "skip_whitespace (newline_indent (Suc level) @ ?items @ ?closing) = d # ds"
      unfolding skip_newline_indent items [symmetric] by (rule skip_opens [OF opens])
    show ?thesis
      unfolding fuel encode_list [OF False]
      by (rule parse_value_array [OF skip d]) (simp only: items [symmetric] parsed)
  qed
next
  case (JDict ms)
  obtain k where fuel: "fuel = Suc k"
    using JDict.prems(2) by (cases fuel) (auto split: if_splits)
  show ?case
  proof (cases "ms = []")
    case True
    then show ?thesis
      by (simp add: fuel skip_none is_whitespace_def)
  next
    case False
    let ?items = "join (CHR '','' # newline_indent (Suc level)) (map (encode_member (Suc level)) ms)"
    let ?closing = "newline_indent level @ CHR ''}'' # rest"
    have members: "\<forall>member \<in> set ms. \<forall>fuel level rest.
        length (encode level (snd member)) \<le> fuel \<longrightarrow> delimited rest \<longrightarrow>
        parse_value fuel (encode level (snd member) @ rest) = Some (snd member, rest)"
    proof (intro ballI allI impI)
      fix member fuel level rest
      assume m: "member \<in> set ms" and l: "length (encode level (snd member)) \<le> fuel"
        and d: "delimited rest"
      have s: "snd member \<in> Basic_BNFs.snds member"
        by (cases member) simp
      have w: "well_keyed (snd member)"
        using JDict.prems(1) m by (auto simp: list_all_iff)
      show "parse_value fuel (encode level (snd member) @ rest) = Some (snd member, rest)"
        by (rule JDict.IH [OF m s w l d])
    qed
    have "length (encode level (JDict ms) @ rest) \<le> Suc k + length rest"
      using JDict.prems(2) by (simp add: fuel del: encode.simps)
    then have "length ?items < k"
      unfolding encode_dict [OF False] by (simp add: newline_indent_def)
    from parse_members_join [OF members False this]
    have parsed: "parse_members k (?items @ ?closing) = Some (ms, rest)" .
    have opens: "opens_value ?items"
      using False by (intro join_opens) (simp_all add: encode_member_opens hd_map)
    then obtain d ds where items: "?items @ ?closing = d # ds" and d: "d \<noteq> CHR ''}''"
      by (cases ?items) (auto simp: opens_value_def)
    have skip: "skip_whitespace (newline_indent (Suc level) @ ?items @ ?closing) = d # ds"
      unfolding skip_newline_indent items [symmetric] by (rule skip_opens [OF opens])
    have keys: "dict_of ms = ms"
      using JDict.prems(1) by (simp add: dict_of_distinct)
    have "parse_value (Suc k) (CHR ''{'' # (newline_indent (Suc level) @ ?items @ ?closing)) =
        Some (JDict (dict_of ms), rest)"
      by (rule parse_value_object [OF skip d]) (simp only: items [symmetric] parsed)
    then show ?thesis
      unfolding fuel encode_dict [OF False] keys .
  qed
qed

lemma json_round_trip: "well_keyed v \<Longrightarrow> json_loads (json_dumps v) = Inr v"
proof -
  assume "well_keyed v"
  then have "parse_value (length (encode 0 v)) (encode 0 v @ []) = Some (v, [])"
    by (rule parse_value_encode) (simp_all add: delimited_def)
  moreover have "skip_whitespace (encode 0 v) = encode 0 v"
    using skip_opens [OF encode_opens, of 0 v "[]"] by simp
  ultimately show ?thesis
    by (simp add: json_loads_def json_dumps_def skip_whitespace_def)
qed

section \<open>Claims about persistence\<close>

lemma item_to_dict:
  "item (to_dict r) ''operation'' = Inr (JStr (operation r))"
  "item (to_dict r) ''duration_ms'' = Inr (JInt (duration_ms r))"
  "item (to_dict r) ''memory_mb'' = Inr (JInt (memory_mb r))"
  "item (to_dict r) ''rows_processed'' = Inr (optional_int (rows_processed r))"
  by (simp_all add: item_def to_dict_def)

lemma item_benchmark_suite:
  "item (benchmark_suite h self) ''timestamp'' = Inr (JStr (utcnow_isoformat h @ ''Z''))"
  "item (benchmark_suite h self) ''results'' = Inr (JList (map to_dict (suite_results self)))"
  "item (benchmark_suite h self) ''system_info'' =
     Inr (JDict [(''os'', JStr (platform_system h)),
                 (''cpu_count'', optional_int (psutil_cpu_count h)),
                 (''total_memory_gb'', JInt (virtual_memory_total h div 1024 div 1024 div 1024))])"
  "item (benchmark_suite h self) ''dataset_info'' =
     Inr (JDict [(''source'', JStr (data_path self)),
                 (''rows_limit'', optional_int (limit_rows self))])"
  by (simp_all add: item_def benchmark_suite_def)

lemma well_keyed_optional_int: "well_keyed (optional_int v)"
  by (simp add: optional_int_def split: option.splits)

lemma well_keyed_to_dict: "well_keyed (to_dict r)"
  by (simp add: to_dict_def well_keyed_optional_int)

lemma well_keyed_benchmark_suite: "well_keyed (benchmark_suite h self)"
  by (simp add: benchmark_suite_def well_keyed_optional_int well_keyed_to_dict list_all_iff)

lemma saved_text_loads:
  "load_results json_loads (fst (save_results h self output_path fs)) output_path =
     Inr (benchmark_suite h self)"
  by (simp add: load_results_def save_results_def json_round_trip well_keyed_benchmark_suite)

text \<open>The text written for a small value, character by character.\<close>

lemma json_dumps_example:
  "json_dumps (JDict [(''rows'', JList [JInt (- 12), JNull])]) =
     [CHR ''{'', CHR 0x0A,
      CHR '' '', CHR '' '', CHR 0x22, CHR ''r'', CHR ''o'', CHR ''w'', CHR ''s'', CHR 0x22,
      CHR '':'', CHR '' '', CHR ''['', CHR 0x0A,
      CHR '' '', CHR '' '', CHR '' '', CHR '' '', CHR ''-'', CHR ''1'', CHR ''2'', CHR '','', CHR 0x0A,
      CHR '' '', CHR '' '', CHR '' '', CHR '' '', CHR ''n'', CHR ''u'', CHR ''l'', CHR ''l'', CHR 0x0A,
      CHR '' '', CHR '' '', CHR '']'', CHR 0x0A,
      CHR ''}'']"
  by code_simp

text \<open>
  C5. Loading the file that \<open>save_results\<close> wrote, with the text format of
  \<open>json.dump\<close> and \<open>json.load\<close> as modelled above, succeeds and yields a mapping
  whose \<open>timestamp\<close>, \<open>system_info\<close> and \<open>dataset_info\<close> are the values written
  and whose \<open>results\<close> is a list with one entry for each result of the suite, in
  order; the entry gives back the operation, the duration, the memory and the
  row count of its result, and a result without a row count comes back with the
  marker \<open>null\<close>, not with a number.
\<close>

theorem saved_results_load_back_equal:
  "\<exists>loaded entries.
     load_results json_loads (fst (save_results h self output_path fs)) output_path =
       Inr loaded \<and>
     item loaded ''timestamp'' = Inr (JStr (utcnow_isoformat h @ ''Z'')) \<and>
     item loaded ''results'' = Inr (JList entries) \<and>
     length entries = length (suite_results self) \<and>
     (\<forall>i < length entries.
        item (entries ! i) ''operation'' = Inr (JStr (operation (suite_results self ! i))) \<and>
        item (entries ! i) ''duration_ms'' = Inr (JInt (duration_ms (suite_results self ! i))) \<and>
        item (entries ! i) ''memory_mb'' = Inr (JInt (memory_mb (suite_results self ! i))) \<and>
        item (entries ! i) ''rows_processed'' =
          Inr (case rows_processed (suite_results self ! i) of
                 None \<Rightarrow> JNull
               | Some n \<Rightarrow> JInt n)) \<and>
     item loaded ''system_info'' =
       Inr (JDict [(''os'', JStr (platform_system h)),
                   (''cpu_count'', optional_int (psutil_cpu_count h)),
                   (''total_memory_gb'',
                      JInt (virtual_memory_total h div 1024 div 1024 div 1024))]) \<and>
     item loaded ''dataset_info'' =
       Inr (JDict [(''source'', JStr (data_path self)),
                   (''rows_limit'', optional_int (limit_rows self))])"
proof (intro exI conjI)
  show "load_results json_loads (fst (save_results h self output_path fs)) output_path =
      Inr (benchmark_suite h self)"
    by (rule saved_text_loads)
  show "item (benchmark_suite h self) ''results'' = Inr (JList (map to_dict (suite_results self)))"
    by (rule item_benchmark_suite)
  show "length (map to_dict (suite_results self)) = length (suite_results self)"
    by simp
  show "\<forall>i < length (map to_dict (suite_results self)).
        item (map to_dict (suite_results self) ! i) ''operation'' =
          Inr (JStr (operation (suite_results self ! i))) \<and>
        item (map to_dict (suite_results self) ! i) ''duration_ms'' =
          Inr (JInt (duration_ms (suite_results self ! i))) \<and>
        item (map to_dict (suite_results self) ! i) ''memory_mb'' =
          Inr (JInt (memory_mb (suite_results self ! i))) \<and>
        item (map to_dict (suite_results self) ! i) ''rows_processed'' =
          Inr (case rows_processed (suite_results self ! i) of
                 None \<Rightarrow> JNull
               | Some n \<Rightarrow> JInt n)"
    by (simp add: item_to_dict optional_int_def)
qed (rule item_benchmark_suite)+

theorem saved_results_load_back_equal_witness:
  "\<exists>loaded entries.
     load_results json_loads
       (fst (save_results sample_host finished_suite ''results/python_results.json'' Map.empty))
       ''results/python_results.json'' = Inr loaded \<and>
     item loaded ''timestamp'' = Inr (JStr ''2024-01-01T00:00:00Z'') \<and>
     item loaded ''results'' = Inr (JList entries) \<and>
     length entries = 1 \<and>
     item (entries ! 0) ''operation'' = Inr (JStr ''read_parquet'') \<and>
     item (entries ! 0) ''duration_ms'' = Inr (JInt 12) \<and>
     item (entries ! 0) ''memory_mb'' = Inr (JInt 3) \<and>
     item (entries ! 0) ''rows_processed'' = Inr JNull"
  using saved_results_load_back_equal
          [of sample_host finished_suite "''results/python_results.json''" Map.empty]
  by (auto simp: sample_host_def finished_suite_def init_def)

end
